theory Spec2Isabelle
  imports Main
begin

section \<open>The iXsystems iSCSI volume driver (driver/ixsystems/iscsi.py)\<close>

text \<open>
  A shallow embedding of \<^verbatim>\<open>FreeNASISCSIDriver\<close>. The driver is an orchestration layer:
  every method resolves names with the pure helpers of \<^verbatim>\<open>ix_utils\<close>, then talks to the
  appliance through \<^verbatim>\<open>self.common\<close> and to the hosting framework through
  \<^verbatim>\<open>cinderapi\<close> and the message API. Those collaborators are not part of the driver
  module; they are taken as parameters (records of operations), so every statement below
  holds for any behaviour they may have. An exception of the source is the \<open>Inl\<close> branch of
  a result; the state a raising call leaves behind is kept, since nothing is rolled back
  in Python.
\<close>

subsection \<open>Python values\<close>

datatype error =
    FreeNASApiError string
  | ValueError
  | IndexError
  | Raised string

datatype pyval = PyNone | PyBool bool | PyInt int | PyStr string

text \<open>
  A Python \<^verbatim>\<open>str\<close> is modelled as a \<open>string\<close> whose characters are the code points
  U+0000 to U+00FF. In that range \<^verbatim>\<open>str.isnumeric\<close> accepts the decimal digits 0-9
  and six further characters: superscript two, three and one (U+00B2, U+00B3, U+00B9) and
  the vulgar fractions (U+00BC, U+00BD, U+00BE). \<^verbatim>\<open>int\<close> reads decimal digits only.
\<close>

definition is_decimal_char :: "char \<Rightarrow> bool" where
  "is_decimal_char c = (48 \<le> (of_char c :: nat) \<and> (of_char c :: nat) \<le> 57)"

definition is_numeric_char :: "char \<Rightarrow> bool" where
  "is_numeric_char c =
     (is_decimal_char c \<or> (of_char c :: nat) \<in> {178, 179, 185, 188, 189, 190})"

definition isnumeric :: "string \<Rightarrow> bool" where
  "isnumeric s = (s \<noteq> [] \<and> list_all is_numeric_char s)"

definition isdecimal :: "string \<Rightarrow> bool" where
  "isdecimal s = (s \<noteq> [] \<and> list_all is_decimal_char s)"

definition decimal_value :: "string \<Rightarrow> int" where
  "decimal_value s = foldl (\<lambda>a c. 10 * a + (int (of_char c) - 48)) 0 s"

text \<open>
  \<^verbatim>\<open>int(s)\<close> for a string \<open>s\<close> that passed \<^verbatim>\<open>isnumeric\<close> (the only use the driver
  makes of it): such a string holds no blank, sign or underscore, so the conversion is
  the base 10 reading of its digits. It raises \<^verbatim>\<open>ValueError\<close> on a numeric character
  that is not a decimal digit, and on more digits than the interpreter's limit for the
  conversion of strings to integers (\<^verbatim>\<open>sys.get_int_max_str_digits()\<close>, 4300 unless
  reconfigured; every digit counts, leading zeros too).
\<close>

definition int_max_str_digits :: nat where
  "int_max_str_digits = 4300"

definition int_readable :: "string \<Rightarrow> bool" where
  "int_readable s = (isdecimal s \<and> length s \<le> int_max_str_digits)"

definition int_of_str :: "string \<Rightarrow> error + int" where
  "int_of_str s = (if int_readable s then Inr (decimal_value s) else Inl ValueError)"

text \<open>\<^verbatim>\<open>s.find(sub)\<close>: the lowest index at which \<open>sub\<close> occurs in \<open>s\<close>, or -1.\<close>

fun startswith :: "string \<Rightarrow> string \<Rightarrow> bool" where
  "startswith s [] = True"
| "startswith [] (c # sub) = False"
| "startswith (d # s) (c # sub) = (d = c \<and> startswith s sub)"

fun find_from :: "int \<Rightarrow> string \<Rightarrow> string \<Rightarrow> int" where
  "find_from i [] sub = (if sub = [] then i else - 1)"
| "find_from i (c # s) sub =
     (if startswith (c # s) sub then i else find_from (i + 1) s sub)"

definition find_str :: "string \<Rightarrow> string \<Rightarrow> int" where
  "find_str s sub = find_from 0 s sub"

text \<open>\<^verbatim>\<open>t[i]\<close> on a tuple or list: \<^verbatim>\<open>IndexError\<close> out of range.\<close>

definition getitem :: "'a list \<Rightarrow> nat \<Rightarrow> error + 'a" where
  "getitem xs i = (if i < length xs then Inr (xs ! i) else Inl IndexError)"

subsection \<open>Regular expressions: \<^verbatim>\<open>re.match\<close>\<close>

text \<open>
  The fragment of Python's regular expressions the driver uses: literal characters,
  character classes given by ranges, concatenation and \<^verbatim>\<open>+\<close>. \<^verbatim>\<open>re.match\<close> succeeds
  when some prefix of the subject is in the language of the pattern; it is computed with
  Brzozowski derivatives.
\<close>

datatype regex =
    Zero
  | One
  | Class "(char \<times> char) list"
  | Alt regex regex
  | Seq regex regex
  | Star regex

definition Lit :: "char \<Rightarrow> regex" where
  "Lit c = Class [(c, c)]"

definition Rep1 :: "regex \<Rightarrow> regex" where
  "Rep1 r = Seq r (Star r)"

fun in_class :: "char \<Rightarrow> (char \<times> char) list \<Rightarrow> bool" where
  "in_class c [] = False"
| "in_class c ((lo, hi) # rs) =
     (((of_char lo :: nat) \<le> of_char c \<and> (of_char c :: nat) \<le> of_char hi) \<or> in_class c rs)"

fun nullable :: "regex \<Rightarrow> bool" where
  "nullable Zero = False"
| "nullable One = True"
| "nullable (Class rs) = False"
| "nullable (Alt r s) = (nullable r \<or> nullable s)"
| "nullable (Seq r s) = (nullable r \<and> nullable s)"
| "nullable (Star r) = True"

fun deriv :: "char \<Rightarrow> regex \<Rightarrow> regex" where
  "deriv c Zero = Zero"
| "deriv c One = Zero"
| "deriv c (Class rs) = (if in_class c rs then One else Zero)"
| "deriv c (Alt r s) = Alt (deriv c r) (deriv c s)"
| "deriv c (Seq r s) =
     (if nullable r then Alt (Seq (deriv c r) s) (deriv c s) else Seq (deriv c r) s)"
| "deriv c (Star r) = Seq (deriv c r) (Star r)"

fun re_match :: "regex \<Rightarrow> string \<Rightarrow> bool" where
  "re_match r [] = nullable r"
| "re_match r (c # s) = (nullable r \<or> re_match (deriv c r) s)"

text \<open>The language of a pattern: the words it matches in full.\<close>

inductive lang :: "regex \<Rightarrow> string \<Rightarrow> bool" where
  empty_word: "lang One []"
| one_char: "in_class c rs \<Longrightarrow> lang (Class rs) [c]"
| left_branch: "lang r w \<Longrightarrow> lang (Alt r s) w"
| right_branch: "lang s w \<Longrightarrow> lang (Alt r s) w"
| sequence: "lang r u \<Longrightarrow> lang s v \<Longrightarrow> lang (Seq r s) (u @ v)"
| no_round: "lang (Star r) []"
| one_more_round: "lang r u \<Longrightarrow> lang (Star r) v \<Longrightarrow> lang (Star r) (u @ v)"

text \<open>
  \<^verbatim>\<open>r"image-[a-zA-Z0-9]+-[a-z0-9]+-[a-z0-9]+-[a-z0-9]+-[a-z0-9]+"\<close>
\<close>

definition lits :: "string \<Rightarrow> regex" where
  "lits s = foldr (\<lambda>c r. Seq (Lit c) r) s One"

definition alnum :: regex where
  "alnum = Class [(CHR ''a'', CHR ''z''), (CHR ''A'', CHR ''Z''), (CHR ''0'', CHR ''9'')]"

definition lower_alnum :: regex where
  "lower_alnum = Class [(CHR ''a'', CHR ''z''), (CHR ''0'', CHR ''9'')]"

definition image_cache_pattern :: regex where
  "image_cache_pattern =
     Seq (lits ''image-'')
    (Seq (Rep1 alnum)
    (Seq (Lit CHR ''-'') (Seq (Rep1 lower_alnum)
    (Seq (Lit CHR ''-'') (Seq (Rep1 lower_alnum)
    (Seq (Lit CHR ''-'') (Seq (Rep1 lower_alnum)
    (Seq (Lit CHR ''-'') (Rep1 lower_alnum)))))))))"

subsection \<open>Data the driver handles\<close>

text \<open>
  The volume and snapshot objects of the hosting framework, with the fields the driver
  reads (\<^verbatim>\<open>volume['name']\<close>, \<^verbatim>\<open>volume['id']\<close>, \<^verbatim>\<open>volume['size']\<close>,
  \<^verbatim>\<open>volume['project_id']\<close>, \<^verbatim>\<open>volume['display_name']\<close>).
\<close>

record volume =
  vol_name :: string
  vol_id :: string
  vol_size :: int
  vol_project_id :: string
  vol_display_name :: string

record snapshot =
  snap_name :: string
  snap_volume_name :: string

text \<open>
  The dictionary \<^verbatim>\<open>generate_freenas_volume_name\<close> and
  \<^verbatim>\<open>generate_freenas_snapshot_name\<close> return: the driver reads its keys
  \<^verbatim>\<open>'name'\<close>, \<^verbatim>\<open>'target'\<close> and \<^verbatim>\<open>'iqn'\<close>.
\<close>

record freenas_name =
  fn_name :: string
  fn_target :: string
  fn_iqn :: string

text \<open>
  An entry of \<^verbatim>\<open>common.tunable()\<close>, as the comment in \<^verbatim>\<open>check_connection\<close> gives it:
  \<^verbatim>\<open>{'var': 'kern.cam.ctl.max_luns', 'enabled': True, 'value': '256'}\<close>.
\<close>

record tunable_item =
  var :: string
  enabled :: bool
  tvalue :: string

text \<open>A row of \<^verbatim>\<open>cinderapi.volume_get_all\<close>; \<^verbatim>\<open>vol.host\<close> may be \<^verbatim>\<open>None\<close>.\<close>

record volume_row =
  host :: "string option"
  attach_status :: string

text \<open>The arguments of \<^verbatim>\<open>message_api.create\<close>; the project is the context's.\<close>

record message =
  msg_project_id :: string
  msg_action :: string
  msg_resource_uuid :: string
  msg_exception :: error
  msg_detail :: string

record properties =
  target_discovered :: bool
  target_portal :: string
  target_iqn :: string
  volume_id :: string

record connection_info =
  driver_volume_type :: string
  data :: properties

type_synonym connector = "(string \<times> string) list"

type_synonym stats_dict = "string \<rightharpoonup> pyval"

subsection \<open>Collaborators\<close>

text \<open>
  Every call the driver makes on a collaborator is recorded, in order, in the \<open>calls\<close>
  of the state: it is how "the driver invokes" and "the driver never invokes" are stated.
\<close>

datatype call =
    SystemVersion
  | Tunable
  | CreateVolume string int
  | CreateIscsiTarget string string
  | DeleteIscsiTarget string
  | DeleteVolume string
  | CreateSnapshot string string
  | DeleteSnapshot string string
  | CreateVolumeFromSnapshot string string string
  | IsServiceProject string
  | PromoteVolume string
  | UpdateVolumeStats
  | ExtendVolume string int
  | ListAllSections
  | VolumeGetAll
  | MessageCreate message

text \<open>
  An operation of a collaborator acts on the outside world \<open>'b\<close> (the appliance, the
  framework's database and message store): it returns or raises, and leaves a world.
\<close>

type_synonym ('b, 'a) rpc = "'b \<Rightarrow> (error + 'a) \<times> 'b"

text \<open>\<^verbatim>\<open>self.common\<close> (\<^verbatim>\<open>common.TrueNASCommon\<close>).\<close>

record 'b common =
  common_system_version :: "('b, string) rpc"
  common_tunable :: "('b, tunable_item list) rpc"
  common_create_volume :: "string \<Rightarrow> int \<Rightarrow> ('b, unit) rpc"
  common_create_iscsitarget :: "string \<Rightarrow> string \<Rightarrow> ('b, unit) rpc"
  common_delete_iscsitarget :: "string \<Rightarrow> ('b, unit) rpc"
  common_delete_volume :: "string \<Rightarrow> ('b, unit) rpc"
  common_create_snapshot :: "string \<Rightarrow> string \<Rightarrow> ('b, unit) rpc"
  common_delete_snapshot :: "string \<Rightarrow> string \<Rightarrow> ('b, unit) rpc"
  common_create_volume_from_snapshot :: "string \<Rightarrow> string \<Rightarrow> string \<Rightarrow> ('b, unit) rpc"
  common_is_service_project :: "string \<Rightarrow> ('b, bool) rpc"
  common_promote_volume :: "string \<Rightarrow> ('b, unit) rpc"
  common_update_volume_stats :: "('b, stats_dict) rpc"
  common_extend_volume :: "string \<Rightarrow> int \<Rightarrow> ('b, unit) rpc"

text \<open>The hosting framework: \<^verbatim>\<open>cinderapi\<close> and \<^verbatim>\<open>cinder.message.api\<close>.\<close>

record 'b cinder =
  list_all_sections :: "('b, string list) rpc"
  volume_get_all :: "('b, volume_row list) rpc"
  message_create :: "message \<Rightarrow> ('b, unit) rpc"

text \<open>The pure helpers of \<^verbatim>\<open>ix_utils\<close>; each may raise.\<close>

record utils =
  generate_freenas_volume_name :: "string \<Rightarrow> string \<Rightarrow> error + freenas_name"
  generate_freenas_snapshot_name :: "string \<Rightarrow> string \<Rightarrow> error + freenas_name"
  parse_truenas_version :: "string \<Rightarrow> error + string list"
  get_iscsi_portal :: "string \<Rightarrow> string \<Rightarrow> error + string"

text \<open>\<^verbatim>\<open>self.configuration\<close>, with the options the driver reads.\<close>

record configuration =
  ixsystems_iqn_prefix :: string
  ixsystems_server_hostname :: string
  ixsystems_server_iscsi_port :: string
  image_volume_cache_enabled :: bool

record 'b env =
  conf :: configuration
  ix_utils :: utils
  common :: "'b common"
  cinderapi :: "'b cinder"

text \<open>
  The state a method runs in: the driver's cache \<^verbatim>\<open>self.stats\<close>, the outside world,
  and the calls made so far.
\<close>

record 'b state =
  stats :: stats_dict
  world :: 'b
  calls :: "call list"

type_synonym ('b, 'a) act = "'b state \<Rightarrow> (error + 'a) \<times> 'b state"

definition ret :: "'a \<Rightarrow> ('b, 'a) act" where
  "ret x = (\<lambda>s. (Inr x, s))"

definition raise :: "error \<Rightarrow> ('b, 'a) act" where
  "raise e = (\<lambda>s. (Inl e, s))"

text \<open>Sequencing: an exception of the first part skips the rest and keeps its state.\<close>

definition bind_act :: "('b, 'a) act \<Rightarrow> ('a \<Rightarrow> ('b, 'c) act) \<Rightarrow> ('b, 'c) act" where
  "bind_act m f = (\<lambda>s. case m s of (Inl e, s') \<Rightarrow> (Inl e, s') | (Inr x, s') \<Rightarrow> f x s')"

text \<open>A pure helper that may raise.\<close>

definition lift :: "error + 'a \<Rightarrow> ('b, 'a) act" where
  "lift r = (\<lambda>s. (r, s))"

text \<open>A call on a collaborator: recorded, then run on the world.\<close>

definition invoke :: "call \<Rightarrow> ('b, 'a) rpc \<Rightarrow> ('b, 'a) act" where
  "invoke c op =
     (\<lambda>s. case op (world s) of (r, w) \<Rightarrow> (r, s\<lparr>world := w, calls := calls s @ [c]\<rparr>))"

text \<open>
  \<^verbatim>\<open>__init__\<close>: a colon is appended to the configured IQN prefix, and the cache of
  statistics starts empty.
\<close>

definition init_configuration :: "configuration \<Rightarrow> configuration" where
  "init_configuration c = c\<lparr>ixsystems_iqn_prefix := ixsystems_iqn_prefix c @ '':''\<rparr>"

definition init_state :: "'b \<Rightarrow> 'b state" where
  "init_state w = \<lparr>stats = Map.empty, world = w, calls = []\<rparr>"

subsection \<open>The driver's methods\<close>

text \<open>
  \<^verbatim>\<open>check_connection\<close>, the loop over the tunables: each entry may set
  \<^verbatim>\<open>max_luns\<close>, then \<^verbatim>\<open>max_ports\<close>; \<^verbatim>\<open>int\<close> may raise.
\<close>

fun tunable_loop :: "tunable_item list \<Rightarrow> int \<times> int \<Rightarrow> error + int \<times> int" where
  "tunable_loop [] (max_ports, max_luns) = Inr (max_ports, max_luns)"
| "tunable_loop (item # items) (max_ports, max_luns) =
     (case (if enabled item \<and> var item = ''kern.cam.ctl.max_luns'' \<and> isnumeric (tvalue item)
            then int_of_str (tvalue item) else Inr max_luns) of
        Inl e \<Rightarrow> Inl e
      | Inr max_luns' \<Rightarrow>
          (case (if enabled item \<and> var item = ''kern.cam.ctl.max_ports'' \<and>
                    isnumeric (tvalue item)
                 then int_of_str (tvalue item) else Inr max_ports) of
             Inl e \<Rightarrow> Inl e
           | Inr max_ports' \<Rightarrow> tunable_loop items (max_ports', max_luns')))"

text \<open>
  The volumes counted as attached: \<^verbatim>\<open>vol.host and vol.host.find("@ixsystems-iscsi#") > 0
  and vol.attach_status == 'attached'\<close>.
\<close>

definition is_attached_truenas_vol :: "volume_row \<Rightarrow> bool" where
  "is_attached_truenas_vol vol =
     ((case host vol of None \<Rightarrow> False
       | Some h \<Rightarrow> h \<noteq> [] \<and> find_str h ''@ixsystems-iscsi#'' > 0)
      \<and> attach_status vol = ''attached'')"

definition attached_truenas_vol_count :: "volume_row list \<Rightarrow> int" where
  "attached_truenas_vol_count vols = int (length (filter is_attached_truenas_vol vols))"

text \<open>
  The part of \<^verbatim>\<open>check_connection\<close> under the version test. \<^verbatim>\<open>common.tunable()\<close> is
  called twice: once inside the f-string of the debug log, once for the list that is read.
\<close>

definition check_limits :: "'b env \<Rightarrow> ('b, bool) act" where
  "check_limits E =
     bind_act (invoke Tunable (common_tunable (common E))) (\<lambda>logged.
     bind_act (invoke Tunable (common_tunable (common E))) (\<lambda>tunable.
     bind_act (lift (tunable_loop tunable (256, 1024))) (\<lambda>(max_ports, max_luns).
     let attach_max_allow = min max_luns max_ports in
     bind_act (invoke ListAllSections (list_all_sections (cinderapi E))) (\<lambda>sections.
     if length sections > 0 then
       bind_act (invoke VolumeGetAll (volume_get_all (cinderapi E))) (\<lambda>vols.
       if attached_truenas_vol_count vols \<ge> attach_max_allow then ret False else ret True)
     else ret True))))"

definition check_connection :: "'b env \<Rightarrow> ('b, bool) act" where
  "check_connection E =
     bind_act (invoke SystemVersion (common_system_version (common E))) (\<lambda>version.
     bind_act (lift (parse_truenas_version (ix_utils E) version)) (\<lambda>parsed.
     bind_act (lift (getitem parsed 1)) (\<lambda>major.
     if major \<in> {''12.0'', ''13.0''} then check_limits E else ret True)))"

text \<open>
  The text of the exception. The literal runs over three source lines joined by
  backslashes, so the indentation of the continuation lines (12 blanks) is part of it.
\<close>

definition limit_reached_text :: string where
  "limit_reached_text =
     ''Maximum lun/port limitation reached. ''
     @ ''            Change kern.cam.ctl.max_luns and kern.cam.ctl.max_ports in ''
     @ ''            tunable settings to allow more lun attachments.''"

definition initialize_connection ::
  "'b env \<Rightarrow> volume \<Rightarrow> connector \<Rightarrow> ('b, connection_info) act" where
  "initialize_connection E volume connector =
     bind_act (check_connection E) (\<lambda>ok.
     if \<not> ok then
       let exception = FreeNASApiError limit_reached_text;
           msg = \<lparr>msg_project_id = vol_project_id volume,
                  msg_action = ''ATTACH_VOLUME'',
                  msg_resource_uuid = vol_id volume,
                  msg_exception = exception,
                  msg_detail = ''ATTACH_ERROR''\<rparr>
       in bind_act (invoke (MessageCreate msg) (message_create (cinderapi E) msg))
            (\<lambda>done. raise exception)
     else
       bind_act (lift (generate_freenas_volume_name (ix_utils E) (vol_name volume)
                         (ixsystems_iqn_prefix (conf E)))) (\<lambda>freenas_volume.
       bind_act (if fn_name freenas_volume = []
                 then lift (generate_freenas_snapshot_name (ix_utils E) (vol_name volume)
                              (ixsystems_iqn_prefix (conf E)))
                 else ret freenas_volume) (\<lambda>freenas_volume.
       bind_act (lift (get_iscsi_portal (ix_utils E) (ixsystems_server_hostname (conf E))
                         (ixsystems_server_iscsi_port (conf E)))) (\<lambda>portal.
       ret \<lparr>driver_volume_type = ''iscsi'',
            data = \<lparr>target_discovered = False,
                     target_portal = portal,
                     target_iqn = fn_iqn freenas_volume,
                     volume_id = vol_id volume\<rparr>\<rparr>))))"

definition create_volume :: "'b env \<Rightarrow> volume \<Rightarrow> ('b, unit) act" where
  "create_volume E volume =
     bind_act (lift (generate_freenas_volume_name (ix_utils E) (vol_name volume)
                       (ixsystems_iqn_prefix (conf E)))) (\<lambda>freenas_volume.
     let size = vol_size volume in
     bind_act (invoke (CreateVolume (fn_name freenas_volume) size)
                 (common_create_volume (common E) (fn_name freenas_volume) size)) (\<lambda>created.
     invoke (CreateIscsiTarget (fn_target freenas_volume) (fn_name freenas_volume))
       (common_create_iscsitarget (common E) (fn_target freenas_volume)
          (fn_name freenas_volume))))"

definition delete_volume :: "'b env \<Rightarrow> volume \<Rightarrow> ('b, unit) act" where
  "delete_volume E volume =
     bind_act (lift (generate_freenas_volume_name (ix_utils E) (vol_name volume)
                       (ixsystems_iqn_prefix (conf E)))) (\<lambda>freenas_volume.
     bind_act (if fn_target freenas_volume \<noteq> []
               then invoke (DeleteIscsiTarget (fn_target freenas_volume))
                      (common_delete_iscsitarget (common E) (fn_target freenas_volume))
               else ret ()) (\<lambda>untargeted.
     if fn_name freenas_volume \<noteq> []
     then invoke (DeleteVolume (fn_name freenas_volume))
            (common_delete_volume (common E) (fn_name freenas_volume))
     else ret ()))"

definition create_snapshot :: "'b env \<Rightarrow> snapshot \<Rightarrow> ('b, unit) act" where
  "create_snapshot E snapshot =
     bind_act (lift (generate_freenas_snapshot_name (ix_utils E) (snap_name snapshot)
                       (ixsystems_iqn_prefix (conf E)))) (\<lambda>freenas_snapshot.
     bind_act (lift (generate_freenas_volume_name (ix_utils E) (snap_volume_name snapshot)
                       (ixsystems_iqn_prefix (conf E)))) (\<lambda>freenas_volume.
     invoke (CreateSnapshot (fn_name freenas_snapshot) (fn_name freenas_volume))
       (common_create_snapshot (common E) (fn_name freenas_snapshot)
          (fn_name freenas_volume))))"

definition delete_snapshot :: "'b env \<Rightarrow> snapshot \<Rightarrow> ('b, unit) act" where
  "delete_snapshot E snapshot =
     bind_act (lift (generate_freenas_snapshot_name (ix_utils E) (snap_name snapshot)
                       (ixsystems_iqn_prefix (conf E)))) (\<lambda>freenas_snapshot.
     bind_act (lift (generate_freenas_volume_name (ix_utils E) (snap_volume_name snapshot)
                       (ixsystems_iqn_prefix (conf E)))) (\<lambda>freenas_volume.
     invoke (DeleteSnapshot (fn_name freenas_snapshot) (fn_name freenas_volume))
       (common_delete_snapshot (common E) (fn_name freenas_snapshot)
          (fn_name freenas_volume))))"

text \<open>
  The condition of the promotion is a Python \<^verbatim>\<open>and\<close>: \<^verbatim>\<open>is_service_project\<close> is
  called only when \<^verbatim>\<open>image_volume_cache_enabled\<close> is set, and the pattern is tried only
  when it answers true.
\<close>

definition create_volume_from_snapshot :: "'b env \<Rightarrow> volume \<Rightarrow> snapshot \<Rightarrow> ('b, unit) act" where
  "create_volume_from_snapshot E volume snapshot =
     bind_act (lift (generate_freenas_volume_name (ix_utils E) (snap_volume_name snapshot)
                       (ixsystems_iqn_prefix (conf E)))) (\<lambda>existing_vol.
     bind_act (lift (generate_freenas_snapshot_name (ix_utils E) (snap_name snapshot)
                       (ixsystems_iqn_prefix (conf E)))) (\<lambda>freenas_snapshot.
     bind_act (lift (generate_freenas_volume_name (ix_utils E) (vol_name volume)
                       (ixsystems_iqn_prefix (conf E)))) (\<lambda>freenas_volume.
     bind_act (invoke (CreateVolumeFromSnapshot (fn_name freenas_volume)
                         (fn_name freenas_snapshot) (fn_name existing_vol))
                 (common_create_volume_from_snapshot (common E) (fn_name freenas_volume)
                    (fn_name freenas_snapshot) (fn_name existing_vol))) (\<lambda>cloned.
     bind_act (invoke (CreateIscsiTarget (fn_target freenas_volume) (fn_name freenas_volume))
                 (common_create_iscsitarget (common E) (fn_target freenas_volume)
                    (fn_name freenas_volume))) (\<lambda>exported.
     bind_act (if image_volume_cache_enabled (conf E)
               then invoke (IsServiceProject (vol_project_id volume))
                      (common_is_service_project (common E) (vol_project_id volume))
               else ret False) (\<lambda>service.
     if service \<and> re_match image_cache_pattern (vol_display_name volume)
     then invoke (PromoteVolume (fn_name freenas_volume))
            (common_promote_volume (common E) (fn_name freenas_volume))
     else ret ()))))))"

definition get_volume_stats :: "'b env \<Rightarrow> bool \<Rightarrow> ('b, stats_dict) act" where
  "get_volume_stats E refresh =
     bind_act (if refresh
               then bind_act (invoke UpdateVolumeStats (common_update_volume_stats (common E)))
                      (\<lambda>fresh s. (Inr (), s\<lparr>stats := fresh\<rparr>))
               else ret ()) (\<lambda>refreshed s. (Inr (stats s), s))"

definition create_cloned_volume :: "'b env \<Rightarrow> volume \<Rightarrow> volume \<Rightarrow> ('b, unit) act" where
  "create_cloned_volume E volume src_vref =
     (let temp_snapshot = \<lparr>snap_name = ''name-'' @ vol_id volume,
                           snap_volume_name = vol_name src_vref\<rparr>
      in bind_act (create_snapshot E temp_snapshot) (\<lambda>snapped.
         create_volume_from_snapshot E volume temp_snapshot))"

definition extend_volume :: "'b env \<Rightarrow> volume \<Rightarrow> int \<Rightarrow> ('b, unit) act" where
  "extend_volume E volume new_size =
     bind_act (lift (generate_freenas_volume_name (ix_utils E) (vol_name volume)
                       (ixsystems_iqn_prefix (conf E)))) (\<lambda>freenas_volume.
     let freenas_new_size = new_size in
     if vol_size volume \<noteq> freenas_new_size
     then invoke (ExtendVolume (fn_name freenas_volume) freenas_new_size)
            (common_extend_volume (common E) (fn_name freenas_volume) freenas_new_size)
     else ret ())"

text \<open>The calls a run has added to the record of calls.\<close>

definition new_calls :: "'b state \<Rightarrow> 'b state \<Rightarrow> call list" where
  "new_calls s s' = drop (length (calls s)) (calls s')"

subsection \<open>The admission rule in the words of the specification\<close>

text \<open>
  A tunable is honoured for the setting \<open>k\<close> when it is enabled, is named \<open>k\<close> and its
  value is numeric. The setting is the value of the last honoured entry of the list, or
  the default when there is none.
\<close>

definition honoured :: "string \<Rightarrow> tunable_item \<Rightarrow> bool" where
  "honoured k item = (enabled item \<and> var item = k \<and> isnumeric (tvalue item))"

definition setting :: "string \<Rightarrow> int \<Rightarrow> tunable_item list \<Rightarrow> int" where
  "setting k d ts =
     (case rev (filter (honoured k) ts) of
        [] \<Rightarrow> d
      | item # earlier \<Rightarrow> decimal_value (tvalue item))"

definition effective_limit :: "tunable_item list \<Rightarrow> int" where
  "effective_limit ts =
     min (setting ''kern.cam.ctl.max_luns'' 1024 ts) (setting ''kern.cam.ctl.max_ports'' 256 ts)"

definition check_capacity :: "int \<Rightarrow> tunable_item list \<Rightarrow> bool" where
  "check_capacity current_attachment_count ts =
     (\<not> current_attachment_count \<ge> effective_limit ts)"

text \<open>
  The values \<^verbatim>\<open>int\<close> can read: the honoured entries of both settings are decimal and
  within the digit limit.
\<close>

definition readable :: "tunable_item list \<Rightarrow> bool" where
  "readable ts =
     list_all (\<lambda>item. if honoured ''kern.cam.ctl.max_luns'' item \<or>
                          honoured ''kern.cam.ctl.max_ports'' item
                       then int_readable (tvalue item) else True) ts"

subsection \<open>The clone in the words of the specification\<close>

text \<open>
  Create a transient snapshot of the source, named from the new volume's id, then create
  the volume from that snapshot; nothing follows.
\<close>

definition transient_snapshot :: "volume \<Rightarrow> volume \<Rightarrow> snapshot" where
  "transient_snapshot volume src_vref =
     \<lparr>snap_name = ''name-'' @ vol_id volume, snap_volume_name = vol_name src_vref\<rparr>"

definition clone_by_snapshot :: "'b env \<Rightarrow> volume \<Rightarrow> volume \<Rightarrow> ('b, unit) act" where
  "clone_by_snapshot E volume src_vref =
     bind_act (create_snapshot E (transient_snapshot volume src_vref)) (\<lambda>snapped.
     create_volume_from_snapshot E volume (transient_snapshot volume src_vref))"

text \<open>Every call a method adds to the record satisfies \<open>P\<close>, whatever the state.\<close>

definition emits :: "(call \<Rightarrow> bool) \<Rightarrow> ('b, 'a) act \<Rightarrow> bool" where
  "emits P m = (\<forall>s. \<exists>cs. calls (snd (m s)) = calls s @ cs \<and> list_all P cs)"

fun is_delete :: "call \<Rightarrow> bool" where
  "is_delete (DeleteSnapshot a b) = True"
| "is_delete (DeleteVolume a) = True"
| "is_delete (DeleteIscsiTarget a) = True"
| "is_delete c = False"

fun is_promote :: "call \<Rightarrow> bool" where
  "is_promote (PromoteVolume a) = True"
| "is_promote c = False"

subsection \<open>A small appliance to run the driver on\<close>

text \<open>
  A concrete world for the runs below: an appliance that keeps the names of its storage
  objects and targets, refuses a target beyond a quota, notes the volumes it promoted and
  the sizes it grew volumes to (a size that is not positive is refused), and answers the
  version, the tunables and the statistics from its state; the framework's sections,
  volume rows and messages beside it.
\<close>

record test_world =
  tw_tunables :: "tunable_item list"
  tw_sections :: "string list"
  tw_rows :: "volume_row list"
  tw_objects :: "string list"
  tw_targets :: "string list"
  tw_target_quota :: nat
  tw_promoted :: "string list"
  tw_grown :: "(string \<times> int) list"
  tw_messages :: "message list"

definition test_common :: "string \<Rightarrow> string \<Rightarrow> test_world common" where
  "test_common version service_project =
     \<lparr>common_system_version = (\<lambda>w. (Inr version, w)),
      common_tunable = (\<lambda>w. (Inr (tw_tunables w), w)),
      common_create_volume = (\<lambda>n sz w. (Inr (), w\<lparr>tw_objects := n # tw_objects w\<rparr>)),
      common_create_iscsitarget =
        (\<lambda>t n w. if length (tw_targets w) < tw_target_quota w
                  then (Inr (), w\<lparr>tw_targets := t # tw_targets w\<rparr>)
                  else (Inl (Raised ''target quota''), w)),
      common_delete_iscsitarget = (\<lambda>t w. (Inr (), w\<lparr>tw_targets := removeAll t (tw_targets w)\<rparr>)),
      common_delete_volume = (\<lambda>n w. (Inr (), w\<lparr>tw_objects := removeAll n (tw_objects w)\<rparr>)),
      common_create_snapshot = (\<lambda>sn vn w. (Inr (), w\<lparr>tw_objects := sn # tw_objects w\<rparr>)),
      common_delete_snapshot =
        (\<lambda>sn vn w. (Inr (), w\<lparr>tw_objects := removeAll sn (tw_objects w)\<rparr>)),
      common_create_volume_from_snapshot =
        (\<lambda>n sn vn w. (Inr (), w\<lparr>tw_objects := n # tw_objects w\<rparr>)),
      common_is_service_project = (\<lambda>p w. (Inr (p = service_project), w)),
      common_promote_volume = (\<lambda>n w. (Inr (), w\<lparr>tw_promoted := n # tw_promoted w\<rparr>)),
      common_update_volume_stats =
        (\<lambda>w. (Inr [''volume_count'' \<mapsto> PyInt (int (length (tw_objects w)))], w)),
      common_extend_volume =
        (\<lambda>n sz w. if 0 < sz then (Inr (), w\<lparr>tw_grown := (n, sz) # tw_grown w\<rparr>)
                   else (Inl (Raised ''size refused''), w))\<rparr>"

definition test_cinder :: "test_world cinder" where
  "test_cinder =
     \<lparr>list_all_sections = (\<lambda>w. (Inr (tw_sections w), w)),
      volume_get_all = (\<lambda>w. (Inr (tw_rows w), w)),
      message_create = (\<lambda>m w. (Inr (), w\<lparr>tw_messages := tw_messages w @ [m]\<rparr>))\<rparr>"

text \<open>
  Test helpers: a volume name resolves when it starts with \<^verbatim>\<open>volume-\<close>, a snapshot
  name when it starts with \<^verbatim>\<open>snap\<close> or with \<^verbatim>\<open>name-\<close> (the transient snapshot of a
  clone); a name that does not resolve gets the empty backend name.
\<close>

definition test_utils :: utils where
  "test_utils =
     \<lparr>generate_freenas_volume_name =
        (\<lambda>n prefix. Inr \<lparr>fn_name = (if startswith n ''volume-'' then n else []),
                          fn_target = ''target-'' @ n,
                          fn_iqn = prefix @ ''target-'' @ n\<rparr>),
      generate_freenas_snapshot_name =
        (\<lambda>n prefix. Inr \<lparr>fn_name = (if startswith n ''snap'' \<or> startswith n ''name-''
                                      then n else []),
                          fn_target = ''target-'' @ n,
                          fn_iqn = prefix @ ''target-'' @ n\<rparr>),
      parse_truenas_version = (\<lambda>v. Inr [take 7 v, take 4 (drop 8 v)]),
      get_iscsi_portal = (\<lambda>h p. Inr (h @ '':'' @ p))\<rparr>"

definition test_conf :: "bool \<Rightarrow> configuration" where
  "test_conf cache =
     init_configuration
       \<lparr>ixsystems_iqn_prefix = ''iqn.2005-10.org.freenas.ctl'',
        ixsystems_server_hostname = ''nas'',
        ixsystems_server_iscsi_port = ''3260'',
        image_volume_cache_enabled = cache\<rparr>"

definition test_env :: "string \<Rightarrow> bool \<Rightarrow> test_world env" where
  "test_env version cache =
     \<lparr>conf = test_conf cache, ix_utils = test_utils,
      common = test_common version ''service'', cinderapi = test_cinder\<rparr>"

definition attached_row :: volume_row where
  "attached_row = \<lparr>host = Some ''cinder@ixsystems-iscsi#pool'', attach_status = ''attached''\<rparr>"

definition ten_five :: "tunable_item list" where
  "ten_five =
     [\<lparr>var = ''kern.cam.ctl.max_luns'', enabled = True, tvalue = ''10''\<rparr>,
      \<lparr>var = ''kern.cam.ctl.max_ports'', enabled = True, tvalue = ''5''\<rparr>]"

definition test_world0 :: "string list \<Rightarrow> nat \<Rightarrow> nat \<Rightarrow> test_world" where
  "test_world0 sections attached quota =
     \<lparr>tw_tunables = ten_five, tw_sections = sections,
      tw_rows = replicate attached attached_row,
      tw_objects = [], tw_targets = [], tw_target_quota = quota,
      tw_promoted = [], tw_grown = [], tw_messages = []\<rparr>"

definition test_volume :: "string \<Rightarrow> string \<Rightarrow> string \<Rightarrow> volume" where
  "test_volume n project display =
     \<lparr>vol_name = n, vol_id = ''42'', vol_size = 10, vol_project_id = project,
      vol_display_name = display\<rparr>"

definition test_snapshot :: snapshot where
  "test_snapshot = \<lparr>snap_name = ''snap-1'', snap_volume_name = ''volume-old''\<rparr>"

subsection \<open>The connection descriptor and the denial message\<close>

text \<open>
  The value \<^verbatim>\<open>initialize_connection\<close> returns for a resolved name, and the message it
  files when admission is denied.
\<close>

definition connection :: "string \<Rightarrow> freenas_name \<Rightarrow> volume \<Rightarrow> connection_info" where
  "connection portal resolved volume =
     \<lparr>driver_volume_type = ''iscsi'',
      data = \<lparr>target_discovered = False, target_portal = portal,
               target_iqn = fn_iqn resolved, volume_id = vol_id volume\<rparr>\<rparr>"

definition denial :: "volume \<Rightarrow> message" where
  "denial volume =
     \<lparr>msg_project_id = vol_project_id volume, msg_action = ''ATTACH_VOLUME'',
      msg_resource_uuid = vol_id volume,
      msg_exception = FreeNASApiError limit_reached_text,
      msg_detail = ''ATTACH_ERROR''\<rparr>"

section \<open>Properties\<close>

subsection \<open>What \<open>re_match\<close> decides\<close>

text \<open>
  \<open>re_match r s\<close> holds exactly when some prefix of \<open>s\<close> is a word of the pattern, which
  is when \<^verbatim>\<open>re.match\<close> returns a match object.
\<close>

inductive_simps lang_Zero_iff: "lang Zero w"
inductive_simps lang_One_iff: "lang One w"
inductive_simps lang_Class_iff: "lang (Class rs) w"
inductive_simps lang_Alt_iff: "lang (Alt r s) w"
inductive_simps lang_Seq_iff: "lang (Seq r s) w"

lemma star_first_char:
  assumes "lang R x" and "R = Star r" and "x = c # w"
  shows "\<exists>u v. w = u @ v \<and> lang r (c # u) \<and> lang (Star r) v"
  using assms
proof (induction arbitrary: w rule: lang.induct)
  case (one_more_round r' u v)
  show ?case
  proof (cases u)
    case Nil
    with one_more_round show ?thesis by simp
  next
    case (Cons d u')
    with one_more_round have "w = u' @ v" "lang r (c # u')" "lang (Star r) v" by simp_all
    then show ?thesis by blast
  qed
qed simp_all

lemma lang_Star_Cons_iff:
  "lang (Star r) (c # w) \<longleftrightarrow> (\<exists>u v. w = u @ v \<and> lang r (c # u) \<and> lang (Star r) v)"
proof
  assume "lang (Star r) (c # w)"
  then show "\<exists>u v. w = u @ v \<and> lang r (c # u) \<and> lang (Star r) v"
    by (rule star_first_char) simp_all
next
  assume "\<exists>u v. w = u @ v \<and> lang r (c # u) \<and> lang (Star r) v"
  then obtain u v where "w = u @ v" "lang r (c # u)" "lang (Star r) v" by blast
  then show "lang (Star r) (c # w)"
    using one_more_round [of r "c # u" v] by simp
qed

lemma nullable_lang: "nullable r \<longleftrightarrow> lang r []"
  by (induction r)
     (simp_all add: lang_Zero_iff lang_One_iff lang_Class_iff lang_Alt_iff lang_Seq_iff no_round)

lemma deriv_lang: "lang (deriv c r) w \<longleftrightarrow> lang r (c # w)"
proof (induction r arbitrary: w)
  case (Seq r s)
  have "lang (Seq r s) (c # w) \<longleftrightarrow>
          (lang r [] \<and> lang s (c # w)) \<or> (\<exists>u v. w = u @ v \<and> lang r (c # u) \<and> lang s v)"
    by (auto simp add: lang_Seq_iff Cons_eq_append_conv)
  with Seq show ?case
    by (auto simp add: lang_Seq_iff lang_Alt_iff nullable_lang)
next
  case (Star r)
  then show ?case by (simp add: lang_Seq_iff lang_Star_Cons_iff)
qed (auto simp add: lang_Zero_iff lang_One_iff lang_Class_iff lang_Alt_iff)

lemma re_match_prefix: "re_match r s \<longleftrightarrow> (\<exists>u v. s = u @ v \<and> lang r u)"
proof (induction s arbitrary: r)
  case Nil
  then show ?case by (simp add: nullable_lang)
next
  case (Cons c s)
  have "(\<exists>u v. c # s = u @ v \<and> lang r u) \<longleftrightarrow>
          lang r [] \<or> (\<exists>u v. s = u @ v \<and> lang r (c # u))"
    by (auto simp add: Cons_eq_append_conv)
  with Cons show ?case by (simp add: nullable_lang deriv_lang)
qed

subsection \<open>Running the actions\<close>

lemma bind_lift_Inr: "bind_act (lift (Inr x)) f s = f x s"
  by (simp add: bind_act_def lift_def)

lemma bind_ret: "bind_act (ret x) f s = f x s"
  by (simp add: bind_act_def ret_def)

lemma ret_run: "ret x s = (Inr x, s)"
  by (simp add: ret_def)

lemma invoke_run:
  "op (world s) = (r, w) \<Longrightarrow> invoke c op s = (r, s\<lparr>world := w, calls := calls s @ [c]\<rparr>)"
  by (simp add: invoke_def)

lemma bind_invoke_Inr:
  "op (world s) = (Inr x, w) \<Longrightarrow>
   bind_act (invoke c op) f s = f x (s\<lparr>world := w, calls := calls s @ [c]\<rparr>)"
  by (simp add: bind_act_def invoke_def)

subsection \<open>The loop over the tunables\<close>

lemma setting_Cons:
  "setting k d (t # ts) = setting k (if honoured k t then decimal_value (tvalue t) else d) ts"
  by (simp add: setting_def split: list.splits)

lemma tunable_loop_setting:
  "readable ts \<Longrightarrow>
   tunable_loop ts (p, l) =
     Inr (setting ''kern.cam.ctl.max_ports'' p ts, setting ''kern.cam.ctl.max_luns'' l ts)"
proof (induction ts arbitrary: p l)
  case Nil
  then show ?case by (simp add: setting_def)
next
  case (Cons t ts)
  then show ?case
    by (simp add: readable_def setting_Cons honoured_def int_of_str_def)
qed

subsection \<open>The calls a method can add\<close>

lemma bind_ret_fun: "bind_act (ret x) f = f x"
  by (rule ext) (simp add: bind_act_def ret_def)

lemma emits_new_calls:
  assumes "emits P m"
  shows "list_all P (new_calls s (snd (m s)))"
proof -
  from assms obtain cs where "calls (snd (m s)) = calls s @ cs" and "list_all P cs"
    unfolding emits_def by blast
  then show ?thesis by (simp add: new_calls_def)
qed

lemma emits_ret: "emits P (ret x)"
  by (simp add: emits_def ret_def)

lemma emits_raise: "emits P (raise e)"
  by (simp add: emits_def raise_def)

lemma emits_lift: "emits P (lift r)"
  by (simp add: emits_def lift_def)

lemma emits_invoke: "P c \<Longrightarrow> emits P (invoke c op)"
  by (simp add: emits_def invoke_def split: prod.splits)

lemma emits_bind:
  assumes m: "emits P m" and f: "\<And>x. emits P (f x)"
  shows "emits P (bind_act m f)"
  unfolding emits_def
proof
  fix s
  obtain r s1 where ms: "m s = (r, s1)" by (cases "m s")
  from m ms obtain cs where cs: "calls s1 = calls s @ cs" "list_all P cs"
    unfolding emits_def by (metis snd_conv)
  show "\<exists>cs. calls (snd (bind_act m f s)) = calls s @ cs \<and> list_all P cs"
  proof (cases r)
    case (Inl e)
    with ms cs show ?thesis by (simp add: bind_act_def)
  next
    case (Inr x)
    from f [of x] obtain ds where "calls (snd (f x s1)) = calls s1 @ ds" "list_all P ds"
      unfolding emits_def by blast
    with ms cs Inr show ?thesis by (simp add: bind_act_def)
  qed
qed

lemma emits_if: "emits P m \<Longrightarrow> emits P n \<Longrightarrow> emits P (if b then m else n)"
  by simp

lemmas emits_rules = emits_bind emits_if emits_ret emits_raise emits_lift emits_invoke

subsection \<open>Admission\<close>

lemma check_limits_run:
  assumes "common_tunable (common E) (world s) = (Inr logged, w2)"
      and "common_tunable (common E) w2 = (Inr tunables, w3)"
      and "readable tunables"
      and "list_all_sections (cinderapi E) w3 = (Inr sections, w4)"
      and "sections \<noteq> []"
      and "volume_get_all (cinderapi E) w4 = (Inr vols, w5)"
  shows "check_limits E s =
           (Inr (check_capacity (attached_truenas_vol_count vols) tunables),
            s\<lparr>world := w5, calls := calls s @ [Tunable, Tunable, ListAllSections, VolumeGetAll]\<rparr>)"
  using assms
  by (simp add: check_limits_def bind_invoke_Inr bind_lift_Inr tunable_loop_setting ret_def
      check_capacity_def effective_limit_def)

lemma check_limits_no_section:
  assumes "common_tunable (common E) (world s) = (Inr logged, w2)"
      and "common_tunable (common E) w2 = (Inr tunables, w3)"
      and "readable tunables"
      and "list_all_sections (cinderapi E) w3 = (Inr [], w4)"
  shows "check_limits E s =
           (Inr True, s\<lparr>world := w4, calls := calls s @ [Tunable, Tunable, ListAllSections]\<rparr>)"
  using assms
  by (simp add: check_limits_def bind_invoke_Inr bind_lift_Inr tunable_loop_setting ret_def)

lemma ten_five_limit: "readable ten_five \<and> effective_limit ten_five = 5"
  by (simp add: ten_five_def readable_def effective_limit_def setting_def honoured_def
      isnumeric_def isdecimal_def is_numeric_char_def is_decimal_char_def decimal_value_def
      int_readable_def int_max_str_digits_def)

lemma ten_five_min:
  "min (setting ''kern.cam.ctl.max_luns'' 1024 ten_five)
       (setting ''kern.cam.ctl.max_ports'' 256 ten_five) = 5"
  using ten_five_limit by (simp add: effective_limit_def)

lemma attached_row_counts: "is_attached_truenas_vol attached_row"
  by (simp add: is_attached_truenas_vol_def attached_row_def find_str_def)

lemma count_replicate: "attached_truenas_vol_count (replicate n attached_row) = int n"
  by (simp add: attached_truenas_vol_count_def attached_row_counts)

text \<open>
  \<^verbatim>\<open>isnumeric\<close> accepts more than \<^verbatim>\<open>int\<close> reads: for an enabled tunable whose value
  is the superscript two, or a run of 4301 digits, the loop raises \<^verbatim>\<open>ValueError\<close>.
\<close>

lemma tunable_loop_superscript_two:
  "isnumeric [CHR 0xB2]
   \<and> tunable_loop [\<lparr>var = ''kern.cam.ctl.max_luns'', enabled = True, tvalue = [CHR 0xB2]\<rparr>]
         (256, 1024) = Inl ValueError"
  by (simp add: isnumeric_def isdecimal_def is_numeric_char_def is_decimal_char_def
      int_of_str_def int_readable_def)

lemma int_of_str_digit_limit: "int_of_str (replicate 4301 CHR ''1'') = Inl ValueError"
  by (simp add: int_of_str_def int_readable_def int_max_str_digits_def)

text \<open>
  Claim C7. When the major version the appliance reports is neither 12.0 nor 13.0,
  \<^verbatim>\<open>check_connection\<close> returns \<^verbatim>\<open>True\<close> after the version query alone: no tunable is
  read, no configuration section and no volume row is looked at, and the world is the one
  the version query left.
\<close>

theorem check_connection_other_version:
  assumes "common_system_version (common E) (world s) = (Inr version, w)"
      and "parse_truenas_version (ix_utils E) version = Inr parsed"
      and "getitem parsed 1 = Inr major"
      and "major \<noteq> ''12.0''" and "major \<noteq> ''13.0''"
  shows "check_connection E s = (Inr True, s\<lparr>world := w, calls := calls s @ [SystemVersion]\<rparr>)"
  using assms
  by (simp add: check_connection_def bind_invoke_Inr bind_lift_Inr ret_def)

theorem check_connection_other_version_witness:
  "check_connection (test_env ''TrueNAS-11.3-U5'' True)
     (init_state (test_world0 [''DEFAULT''] 5 1))
   = (Inr True, \<lparr>stats = Map.empty, world = test_world0 [''DEFAULT''] 5 1,
                 calls = [SystemVersion]\<rparr>)"
  using check_connection_other_version [of "test_env ''TrueNAS-11.3-U5'' True"
     "init_state (test_world0 [''DEFAULT''] 5 1)" "''TrueNAS-11.3-U5''"
     "test_world0 [''DEFAULT''] 5 1" "[''TrueNAS'', ''11.3'']" "''11.3''"]
  by (simp add: test_env_def test_common_def test_utils_def init_state_def getitem_def)

text \<open>
  Claim C1, as amended. On an appliance of major version 12.0 or 13.0 whose honoured
  tunable values \<^verbatim>\<open>int\<close> can read (decimal, at most 4300 digits),
  \<^verbatim>\<open>check_connection\<close> reads \<^verbatim>\<open>max_luns\<close> from the last enabled numeric tunable
  named \<^verbatim>\<open>kern.cam.ctl.max_luns\<close> (default 1024) and \<^verbatim>\<open>max_ports\<close> likewise from
  \<^verbatim>\<open>kern.cam.ctl.max_ports\<close> (default 256). When the host has at least one
  configuration section loaded, it counts the attached volumes and returns \<^verbatim>\<open>False\<close>
  exactly when the count is at least the smaller of the two; with the tunables 10 and 5
  it denies at 5 attachments and allows at 4. When no section is loaded, it returns
  \<^verbatim>\<open>True\<close> after the query of the sections, without asking for the volumes.
\<close>

theorem check_connection_admission:
  assumes "common_system_version (common E) (world s) = (Inr version, w1)"
      and "parse_truenas_version (ix_utils E) version = Inr parsed"
      and "getitem parsed 1 = Inr major"
      and "major = ''12.0'' \<or> major = ''13.0''"
      and "common_tunable (common E) w1 = (Inr logged, w2)"
      and "common_tunable (common E) w2 = (Inr tunables, w3)"
      and "readable tunables"
      and "list_all_sections (cinderapi E) w3 = (Inr sections, w4)"
  shows "(sections \<noteq> [] \<and> volume_get_all (cinderapi E) w4 = (Inr vols, w5) \<longrightarrow>
            check_connection E s =
              (Inr (check_capacity (attached_truenas_vol_count vols) tunables),
               s\<lparr>world := w5,
                 calls := calls s @
                   [SystemVersion, Tunable, Tunable, ListAllSections, VolumeGetAll]\<rparr>)
            \<and> (fst (check_connection E s) = Inr False) =
                (attached_truenas_vol_count vols \<ge>
                   min (setting ''kern.cam.ctl.max_luns'' 1024 tunables)
                       (setting ''kern.cam.ctl.max_ports'' 256 tunables)))
       \<and> (sections = [] \<longrightarrow>
            check_connection E s =
              (Inr True,
               s\<lparr>world := w4,
                 calls := calls s @ [SystemVersion, Tunable, Tunable, ListAllSections]\<rparr>))"
proof -
  let ?s1 = "s\<lparr>world := w1, calls := calls s @ [SystemVersion]\<rparr>"
  have enter: "check_connection E s = check_limits E ?s1"
    using assms(1-4) by (auto simp add: check_connection_def bind_invoke_Inr bind_lift_Inr)
  have loaded: "check_limits E ?s1 =
           (Inr (check_capacity (attached_truenas_vol_count vols) tunables),
            ?s1\<lparr>world := w5,
                calls := calls ?s1 @ [Tunable, Tunable, ListAllSections, VolumeGetAll]\<rparr>)"
    if "sections \<noteq> []" and "volume_get_all (cinderapi E) w4 = (Inr vols, w5)"
    using assms(5-8) that by (intro check_limits_run) simp_all
  have unloaded: "check_limits E ?s1 =
           (Inr True, ?s1\<lparr>world := w4, calls := calls ?s1 @ [Tunable, Tunable, ListAllSections]\<rparr>)"
    if "sections = []"
    using assms(5-8) that by (intro check_limits_no_section) simp_all
  show ?thesis
    using loaded unloaded
    by (auto simp add: enter check_capacity_def effective_limit_def)
qed

theorem check_connection_admission_witness:
  "check_connection (test_env ''TrueNAS-12.0-U8'' True)
     (init_state (test_world0 [''DEFAULT''] 5 1))
   = (Inr False,
      \<lparr>stats = Map.empty, world = test_world0 [''DEFAULT''] 5 1,
       calls = [SystemVersion, Tunable, Tunable, ListAllSections, VolumeGetAll]\<rparr>)
   \<and> check_connection (test_env ''TrueNAS-12.0-U8'' True)
     (init_state (test_world0 [''DEFAULT''] 4 1))
   = (Inr True,
      \<lparr>stats = Map.empty, world = test_world0 [''DEFAULT''] 4 1,
       calls = [SystemVersion, Tunable, Tunable, ListAllSections, VolumeGetAll]\<rparr>)
   \<and> check_connection (test_env ''TrueNAS-12.0-U8'' True) (init_state (test_world0 [] 5 1))
   = (Inr True,
      \<lparr>stats = Map.empty, world = test_world0 [] 5 1,
       calls = [SystemVersion, Tunable, Tunable, ListAllSections]\<rparr>)"
proof -
  have run: "(secs \<noteq> [] \<longrightarrow>
      check_connection (test_env ''TrueNAS-12.0-U8'' True) (init_state (test_world0 secs n 1))
        = (Inr (\<not> 5 \<le> int n),
           \<lparr>stats = Map.empty, world = test_world0 secs n 1,
            calls = [SystemVersion, Tunable, Tunable, ListAllSections, VolumeGetAll]\<rparr>))
    \<and> (secs = [] \<longrightarrow>
      check_connection (test_env ''TrueNAS-12.0-U8'' True) (init_state (test_world0 secs n 1))
        = (Inr True,
           \<lparr>stats = Map.empty, world = test_world0 secs n 1,
            calls = [SystemVersion, Tunable, Tunable, ListAllSections]\<rparr>))" for secs n
    using check_connection_admission [of "test_env ''TrueNAS-12.0-U8'' True"
       "init_state (test_world0 secs n 1)" "''TrueNAS-12.0-U8''"
       "test_world0 secs n 1" "[''TrueNAS'', ''12.0'']" "''12.0''"
       ten_five "test_world0 secs n 1" ten_five "test_world0 secs n 1"
       secs "test_world0 secs n 1" "replicate n attached_row"
       "test_world0 secs n 1"]
    by (simp add: test_env_def test_common_def test_utils_def test_cinder_def init_state_def
        getitem_def test_world0_def ten_five_limit count_replicate check_capacity_def)
  from run [of "[''DEFAULT'']" 5] run [of "[''DEFAULT'']" 4] run [of "[]" 5]
  show ?thesis by simp
qed

text \<open>
  Claim C1 as stated does not hold: when the host has no configuration section loaded,
  the attachments are not counted. With the tunables 10 and 5 and 5 attached volumes the
  rule of the claim denies, and \<^verbatim>\<open>check_connection\<close> returns \<^verbatim>\<open>True\<close>.
\<close>

theorem check_connection_config_not_loaded:
  "fst (check_connection (test_env ''TrueNAS-12.0-U8'' True) (init_state (test_world0 [] 5 1)))
     = Inr True
   \<and> calls (snd (check_connection (test_env ''TrueNAS-12.0-U8'' True)
                    (init_state (test_world0 [] 5 1))))
     = [SystemVersion, Tunable, Tunable, ListAllSections]
   \<and> attached_truenas_vol_count (tw_rows (test_world0 [] 5 1)) = 5
   \<and> effective_limit (tw_tunables (test_world0 [] 5 1)) = 5
   \<and> check_capacity (attached_truenas_vol_count (tw_rows (test_world0 [] 5 1)))
        (tw_tunables (test_world0 [] 5 1)) = False"
  by (simp add: check_connection_def check_limits_def bind_act_def invoke_def lift_def ret_def
      test_env_def test_common_def test_utils_def test_cinder_def init_state_def getitem_def
      test_world0_def ten_five_limit count_replicate check_capacity_def
      tunable_loop_setting)

subsection \<open>Promotion of image cache volumes\<close>

lemma cvfs_no_promote:
  assumes "\<not> (image_volume_cache_enabled (conf E) \<and>
              re_match image_cache_pattern (vol_display_name v))"
  shows "emits (\<lambda>c. \<not> is_promote c) (create_volume_from_snapshot E v x)"
proof (cases "image_volume_cache_enabled (conf E)")
  case False
  then show ?thesis
    unfolding create_volume_from_snapshot_def
    by (simp add: bind_ret_fun) (intro emits_rules, simp_all)
next
  case True
  with assms have "\<not> re_match image_cache_pattern (vol_display_name v)" by simp
  with True show ?thesis
    unfolding create_volume_from_snapshot_def
    by simp (intro emits_rules, simp_all)
qed

lemma cvfs_run:
  assumes "generate_freenas_volume_name (ix_utils E) (snap_volume_name x)
             (ixsystems_iqn_prefix (conf E)) = Inr existing_vol"
      and "generate_freenas_snapshot_name (ix_utils E) (snap_name x)
             (ixsystems_iqn_prefix (conf E)) = Inr freenas_snapshot"
      and "generate_freenas_volume_name (ix_utils E) (vol_name v)
             (ixsystems_iqn_prefix (conf E)) = Inr freenas_volume"
      and "common_create_volume_from_snapshot (common E) (fn_name freenas_volume)
             (fn_name freenas_snapshot) (fn_name existing_vol) (world s) = (Inr (), w1)"
      and "common_create_iscsitarget (common E) (fn_target freenas_volume)
             (fn_name freenas_volume) w1 = (Inr (), w2)"
      and "common_is_service_project (common E) (vol_project_id v) w2 = (Inr service, w3)"
  shows "new_calls s (snd (create_volume_from_snapshot E v x s)) =
           [CreateVolumeFromSnapshot (fn_name freenas_volume) (fn_name freenas_snapshot)
              (fn_name existing_vol),
            CreateIscsiTarget (fn_target freenas_volume) (fn_name freenas_volume)]
           @ (if image_volume_cache_enabled (conf E) then [IsServiceProject (vol_project_id v)]
              else [])
           @ (if image_volume_cache_enabled (conf E) \<and> service \<and>
                 re_match image_cache_pattern (vol_display_name v)
              then [PromoteVolume (fn_name freenas_volume)] else [])"
  using assms
  apply (simp add: create_volume_from_snapshot_def bind_lift_Inr bind_invoke_Inr bind_ret)
  apply (auto simp add: new_calls_def invoke_def ret_def split: prod.splits)
  done

lemma cvfs_full_run:
  assumes "generate_freenas_volume_name (ix_utils E) (snap_volume_name x)
             (ixsystems_iqn_prefix (conf E)) = Inr existing_vol"
      and "generate_freenas_snapshot_name (ix_utils E) (snap_name x)
             (ixsystems_iqn_prefix (conf E)) = Inr freenas_snapshot"
      and "generate_freenas_volume_name (ix_utils E) (vol_name v)
             (ixsystems_iqn_prefix (conf E)) = Inr freenas_volume"
      and "common_create_volume_from_snapshot (common E) (fn_name freenas_volume)
             (fn_name freenas_snapshot) (fn_name existing_vol) (world s) = (Inr (), wc)"
      and "common_create_iscsitarget (common E) (fn_target freenas_volume)
             (fn_name freenas_volume) wc = (Inr (), wt)"
  shows "create_volume_from_snapshot E v x s =
     (let s2 = s\<lparr>world := wt,
                 calls := calls s @
                   [CreateVolumeFromSnapshot (fn_name freenas_volume) (fn_name freenas_snapshot)
                      (fn_name existing_vol),
                    CreateIscsiTarget (fn_target freenas_volume) (fn_name freenas_volume)]\<rparr>
      in bind_act (if image_volume_cache_enabled (conf E)
               then invoke (IsServiceProject (vol_project_id v))
                      (common_is_service_project (common E) (vol_project_id v))
               else ret False) (\<lambda>service.
          if service \<and> re_match image_cache_pattern (vol_display_name v)
          then invoke (PromoteVolume (fn_name freenas_volume))
                 (common_promote_volume (common E) (fn_name freenas_volume))
          else ret ()) s2)"
  using assms
  by (simp add: create_volume_from_snapshot_def bind_lift_Inr bind_invoke_Inr)

lemma image_name_matches: "re_match image_cache_pattern ''image-abc-1-2-3-4''"
  by (simp add: image_cache_pattern_def lits_def Lit_def Rep1_def alnum_def lower_alnum_def)

text \<open>
  Claim C2, as amended. When the names resolve and the appliance has created the clone
  and its target, \<^verbatim>\<open>create_volume_from_snapshot\<close> runs the appliance's promotion of the
  new volume, once, as its last step and with the outcome of that step as its own, exactly
  when \<^verbatim>\<open>image_volume_cache_enabled\<close> is set in the configuration, the appliance
  answers that the volume's project is the service project, and \<^verbatim>\<open>re.match\<close> finds the
  image cache pattern at the start of the display name. Otherwise it returns with the
  world the last query left: the one after the target when the option is not set (the
  project is not even asked about), the one after the question about the project when
  the answer is no or the pattern does not match. When the option is not set or the
  pattern does not match, no promotion is invoked, whatever the collaborators do.
\<close>

theorem promotion_condition:
  assumes "generate_freenas_volume_name (ix_utils E) (snap_volume_name x)
             (ixsystems_iqn_prefix (conf E)) = Inr existing_vol"
      and "generate_freenas_snapshot_name (ix_utils E) (snap_name x)
             (ixsystems_iqn_prefix (conf E)) = Inr freenas_snapshot"
      and "generate_freenas_volume_name (ix_utils E) (vol_name v)
             (ixsystems_iqn_prefix (conf E)) = Inr freenas_volume"
      and "common_create_volume_from_snapshot (common E) (fn_name freenas_volume)
             (fn_name freenas_snapshot) (fn_name existing_vol) (world s) = (Inr (), wc)"
      and "common_create_iscsitarget (common E) (fn_target freenas_volume)
             (fn_name freenas_volume) wc = (Inr (), wt)"
  shows "(image_volume_cache_enabled (conf E) \<and>
          common_is_service_project (common E) (vol_project_id v) wt = (Inr True, wq) \<and>
          re_match image_cache_pattern (vol_display_name v) \<and>
          common_promote_volume (common E) (fn_name freenas_volume) wq = (r, wp) \<longrightarrow>
            create_volume_from_snapshot E v x s =
              (r, s\<lparr>world := wp,
                    calls := calls s @
                      [CreateVolumeFromSnapshot (fn_name freenas_volume)
                         (fn_name freenas_snapshot) (fn_name existing_vol),
                       CreateIscsiTarget (fn_target freenas_volume) (fn_name freenas_volume),
                       IsServiceProject (vol_project_id v),
                       PromoteVolume (fn_name freenas_volume)]\<rparr>))
       \<and> (image_volume_cache_enabled (conf E) \<and>
          common_is_service_project (common E) (vol_project_id v) wt = (Inr service, wq) \<and>
          \<not> (service \<and> re_match image_cache_pattern (vol_display_name v)) \<longrightarrow>
            create_volume_from_snapshot E v x s =
              (Inr (), s\<lparr>world := wq,
                    calls := calls s @
                      [CreateVolumeFromSnapshot (fn_name freenas_volume)
                         (fn_name freenas_snapshot) (fn_name existing_vol),
                       CreateIscsiTarget (fn_target freenas_volume) (fn_name freenas_volume),
                       IsServiceProject (vol_project_id v)]\<rparr>))
       \<and> (\<not> image_volume_cache_enabled (conf E) \<longrightarrow>
            create_volume_from_snapshot E v x s =
              (Inr (), s\<lparr>world := wt,
                    calls := calls s @
                      [CreateVolumeFromSnapshot (fn_name freenas_volume)
                         (fn_name freenas_snapshot) (fn_name existing_vol),
                       CreateIscsiTarget (fn_target freenas_volume)
                         (fn_name freenas_volume)]\<rparr>))
       \<and> (common_is_service_project (common E) (vol_project_id v) wt = (Inr service, wq) \<longrightarrow>
            filter is_promote (new_calls s (snd (create_volume_from_snapshot E v x s))) =
              (if image_volume_cache_enabled (conf E) \<and> service \<and>
                  re_match image_cache_pattern (vol_display_name v)
               then [PromoteVolume (fn_name freenas_volume)] else []))
       \<and> (if image_volume_cache_enabled (conf E) \<and>
              re_match image_cache_pattern (vol_display_name v) then True
           else list_all (\<lambda>c. \<not> is_promote c)
                  (new_calls s (snd (create_volume_from_snapshot E v x s))))"
proof (intro conjI impI)
  assume "image_volume_cache_enabled (conf E) \<and>
          common_is_service_project (common E) (vol_project_id v) wt = (Inr True, wq) \<and>
          re_match image_cache_pattern (vol_display_name v) \<and>
          common_promote_volume (common E) (fn_name freenas_volume) wq = (r, wp)"
  then show "create_volume_from_snapshot E v x s =
              (r, s\<lparr>world := wp,
                    calls := calls s @
                      [CreateVolumeFromSnapshot (fn_name freenas_volume)
                         (fn_name freenas_snapshot) (fn_name existing_vol),
                       CreateIscsiTarget (fn_target freenas_volume) (fn_name freenas_volume),
                       IsServiceProject (vol_project_id v),
                       PromoteVolume (fn_name freenas_volume)]\<rparr>)"
    by (simp add: cvfs_full_run [OF assms] Let_def bind_invoke_Inr invoke_run)
next
  assume "image_volume_cache_enabled (conf E) \<and>
          common_is_service_project (common E) (vol_project_id v) wt = (Inr service, wq) \<and>
          \<not> (service \<and> re_match image_cache_pattern (vol_display_name v))"
  then show "create_volume_from_snapshot E v x s =
              (Inr (), s\<lparr>world := wq,
                    calls := calls s @
                      [CreateVolumeFromSnapshot (fn_name freenas_volume)
                         (fn_name freenas_snapshot) (fn_name existing_vol),
                       CreateIscsiTarget (fn_target freenas_volume) (fn_name freenas_volume),
                       IsServiceProject (vol_project_id v)]\<rparr>)"
    by (auto simp add: cvfs_full_run [OF assms] Let_def bind_invoke_Inr ret_run)
next
  assume "\<not> image_volume_cache_enabled (conf E)"
  then show "create_volume_from_snapshot E v x s =
              (Inr (), s\<lparr>world := wt,
                    calls := calls s @
                      [CreateVolumeFromSnapshot (fn_name freenas_volume)
                         (fn_name freenas_snapshot) (fn_name existing_vol),
                       CreateIscsiTarget (fn_target freenas_volume)
                         (fn_name freenas_volume)]\<rparr>)"
    by (simp add: cvfs_full_run [OF assms] Let_def bind_ret_fun ret_run)
next
  assume "common_is_service_project (common E) (vol_project_id v) wt = (Inr service, wq)"
  then show "filter is_promote (new_calls s (snd (create_volume_from_snapshot E v x s))) =
              (if image_volume_cache_enabled (conf E) \<and> service \<and>
                  re_match image_cache_pattern (vol_display_name v)
               then [PromoteVolume (fn_name freenas_volume)] else [])"
    by (simp add: cvfs_run [OF assms])
next
  show "if image_volume_cache_enabled (conf E) \<and>
              re_match image_cache_pattern (vol_display_name v) then True
           else list_all (\<lambda>c. \<not> is_promote c)
                  (new_calls s (snd (create_volume_from_snapshot E v x s)))"
    using emits_new_calls [OF cvfs_no_promote, of E v s x] by simp
qed

theorem promotion_condition_witness:
  "create_volume_from_snapshot (test_env ''TrueNAS-12.0-U8'' True)
     (test_volume ''volume-new'' ''service'' ''image-abc-1-2-3-4'') test_snapshot
     (init_state (test_world0 [] 0 9))
   = (Inr (),
      \<lparr>stats = Map.empty,
       world = (test_world0 [] 0 9)\<lparr>tw_objects := [''volume-new''],
                                    tw_targets := [''target-volume-new''],
                                    tw_promoted := [''volume-new'']\<rparr>,
       calls = [CreateVolumeFromSnapshot ''volume-new'' ''snap-1'' ''volume-old'',
                CreateIscsiTarget ''target-volume-new'' ''volume-new'',
                IsServiceProject ''service'',
                PromoteVolume ''volume-new'']\<rparr>)
   \<and> create_volume_from_snapshot (test_env ''TrueNAS-12.0-U8'' True)
     (test_volume ''volume-new'' ''demo'' ''image-abc-1-2-3-4'') test_snapshot
     (init_state (test_world0 [] 0 9))
   = (Inr (),
      \<lparr>stats = Map.empty,
       world = (test_world0 [] 0 9)\<lparr>tw_objects := [''volume-new''],
                                    tw_targets := [''target-volume-new'']\<rparr>,
       calls = [CreateVolumeFromSnapshot ''volume-new'' ''snap-1'' ''volume-old'',
                CreateIscsiTarget ''target-volume-new'' ''volume-new'',
                IsServiceProject ''demo'']\<rparr>)"
proof -
  let ?E = "test_env ''TrueNAS-12.0-U8'' True"
  let ?p = "ixsystems_iqn_prefix (conf ?E)"
  let ?s = "init_state (test_world0 [] 0 9)"
  let ?old = "\<lparr>fn_name = ''volume-old'', fn_target = ''target-volume-old'',
               fn_iqn = ?p @ ''target-volume-old''\<rparr>"
  let ?snap = "\<lparr>fn_name = ''snap-1'', fn_target = ''target-snap-1'',
               fn_iqn = ?p @ ''target-snap-1''\<rparr>"
  let ?new = "\<lparr>fn_name = ''volume-new'', fn_target = ''target-volume-new'',
               fn_iqn = ?p @ ''target-volume-new''\<rparr>"
  let ?wc = "(test_world0 [] 0 9)\<lparr>tw_objects := [''volume-new'']\<rparr>"
  let ?wt = "(test_world0 [] 0 9)\<lparr>tw_objects := [''volume-new''],
                                  tw_targets := [''target-volume-new'']\<rparr>"
  let ?wp = "(test_world0 [] 0 9)\<lparr>tw_objects := [''volume-new''],
                                  tw_targets := [''target-volume-new''],
                                  tw_promoted := [''volume-new'']\<rparr>"
  have 1: "generate_freenas_volume_name (ix_utils ?E) (snap_volume_name test_snapshot) ?p
             = Inr ?old"
    by (simp add: test_env_def test_utils_def test_snapshot_def)
  have 2: "generate_freenas_snapshot_name (ix_utils ?E) (snap_name test_snapshot) ?p
             = Inr ?snap"
    by (simp add: test_env_def test_utils_def test_snapshot_def)
  have 3: "generate_freenas_volume_name (ix_utils ?E)
             (vol_name (test_volume ''volume-new'' project ''image-abc-1-2-3-4'')) ?p
             = Inr ?new" for project
    by (simp add: test_env_def test_utils_def test_volume_def)
  have 4: "common_create_volume_from_snapshot (common ?E) (fn_name ?new) (fn_name ?snap)
             (fn_name ?old) (world ?s) = (Inr (), ?wc)"
    by (simp add: test_env_def test_common_def init_state_def test_world0_def)
  have 5: "common_create_iscsitarget (common ?E) (fn_target ?new) (fn_name ?new) ?wc
             = (Inr (), ?wt)"
    by (simp add: test_env_def test_common_def test_world0_def)
  have m: "re_match image_cache_pattern
             (vol_display_name (test_volume ''volume-new'' project ''image-abc-1-2-3-4''))"
    for project
    by (simp add: test_volume_def image_name_matches del: re_match.simps)
  have promoted: "create_volume_from_snapshot ?E
       (test_volume ''volume-new'' ''service'' ''image-abc-1-2-3-4'') test_snapshot ?s
     = (Inr (), ?s\<lparr>world := ?wp,
           calls := calls ?s @
             [CreateVolumeFromSnapshot (fn_name ?new) (fn_name ?snap) (fn_name ?old),
              CreateIscsiTarget (fn_target ?new) (fn_name ?new),
              IsServiceProject
                (vol_project_id (test_volume ''volume-new'' ''service'' ''image-abc-1-2-3-4'')),
              PromoteVolume (fn_name ?new)]\<rparr>)"
    using promotion_condition [OF 1 2 3 4 5, where wq = ?wt and wp = ?wp and r = "Inr ()"] m
    by (simp add: test_env_def test_common_def test_conf_def init_configuration_def
        test_world0_def test_volume_def del: re_match.simps)
  have kept: "create_volume_from_snapshot ?E
       (test_volume ''volume-new'' ''demo'' ''image-abc-1-2-3-4'') test_snapshot ?s
     = (Inr (), ?s\<lparr>world := ?wt,
           calls := calls ?s @
             [CreateVolumeFromSnapshot (fn_name ?new) (fn_name ?snap) (fn_name ?old),
              CreateIscsiTarget (fn_target ?new) (fn_name ?new),
              IsServiceProject
                (vol_project_id (test_volume ''volume-new'' ''demo'' ''image-abc-1-2-3-4''))]\<rparr>)"
    using promotion_condition [OF 1 2 3 4 5, where wq = ?wt and service = False]
    by (simp add: test_env_def test_common_def test_conf_def init_configuration_def
        test_world0_def test_volume_def del: re_match.simps)
  show ?thesis
    unfolding promoted kept
    by (simp add: init_state_def test_volume_def)
qed

text \<open>
  Claim C2 as stated does not hold: with \<^verbatim>\<open>image_volume_cache_enabled\<close> not set, a volume
  of the service project whose display name matches the pattern is created and exported,
  and not promoted.
\<close>

theorem promotion_cache_disabled:
  "fst (common_is_service_project (common (test_env ''TrueNAS-12.0-U8'' False)) ''service''
          (test_world0 [] 0 9)) = Inr True
   \<and> re_match image_cache_pattern ''image-abc-1-2-3-4''
   \<and> fst (create_volume_from_snapshot (test_env ''TrueNAS-12.0-U8'' False)
        (test_volume ''volume-new'' ''service'' ''image-abc-1-2-3-4'') test_snapshot
        (init_state (test_world0 [] 0 9))) = Inr ()
   \<and> calls (snd (create_volume_from_snapshot (test_env ''TrueNAS-12.0-U8'' False)
        (test_volume ''volume-new'' ''service'' ''image-abc-1-2-3-4'') test_snapshot
        (init_state (test_world0 [] 0 9))))
      = [CreateVolumeFromSnapshot ''volume-new'' ''snap-1'' ''volume-old'',
         CreateIscsiTarget ''target-volume-new'' ''volume-new'']"
  by (simp add: create_volume_from_snapshot_def bind_act_def invoke_def lift_def ret_def
      test_env_def test_common_def test_utils_def test_conf_def init_configuration_def
      init_state_def test_world0_def test_volume_def test_snapshot_def image_name_matches
      del: re_match.simps)

subsection \<open>Attaching a volume\<close>

lemma initialize_connection_allowed:
  assumes "check_connection E s = (Inr True, s1)"
  shows "initialize_connection E v c s =
     (case generate_freenas_volume_name (ix_utils E) (vol_name v) (ixsystems_iqn_prefix (conf E)) of
        Inl e \<Rightarrow> (Inl e, s1)
      | Inr fv \<Rightarrow>
         (case (if fn_name fv = []
                then generate_freenas_snapshot_name (ix_utils E) (vol_name v)
                       (ixsystems_iqn_prefix (conf E))
                else Inr fv) of
            Inl e \<Rightarrow> (Inl e, s1)
          | Inr f \<Rightarrow>
             (case get_iscsi_portal (ix_utils E) (ixsystems_server_hostname (conf E))
                     (ixsystems_server_iscsi_port (conf E)) of
                Inl e \<Rightarrow> (Inl e, s1)
              | Inr portal \<Rightarrow> (Inr (connection portal f v), s1))))"
  using assms
  by (simp add: initialize_connection_def bind_act_def lift_def ret_def connection_def
      split: sum.splits)

lemma initialize_connection_denied:
  assumes "check_connection E s = (Inr False, s1)"
  shows "initialize_connection E v c s =
     (case message_create (cinderapi E) (denial v) (world s1) of
        (Inl e, w) \<Rightarrow> (Inl e, s1\<lparr>world := w, calls := calls s1 @ [MessageCreate (denial v)]\<rparr>)
      | (Inr u, w) \<Rightarrow> (Inl (FreeNASApiError limit_reached_text),
                        s1\<lparr>world := w, calls := calls s1 @ [MessageCreate (denial v)]\<rparr>))"
  using assms
  by (simp add: initialize_connection_def bind_act_def invoke_def raise_def denial_def Let_def
      split: sum.splits prod.splits)

lemma test_admits:
  "check_connection (test_env ''TrueNAS-12.0-U8'' True) (init_state (test_world0 [''DEFAULT''] 0 1))
     = (Inr True, \<lparr>stats = Map.empty, world = test_world0 [''DEFAULT''] 0 1,
          calls = [SystemVersion, Tunable, Tunable, ListAllSections, VolumeGetAll]\<rparr>)"
  by (simp add: check_connection_def check_limits_def bind_act_def invoke_def lift_def ret_def
      test_env_def test_common_def test_utils_def test_cinder_def init_state_def getitem_def
      test_world0_def ten_five_limit ten_five_min count_replicate check_capacity_def
      tunable_loop_setting attached_truenas_vol_count_def)

lemma test_denies:
  "check_connection (test_env ''TrueNAS-12.0-U8'' True) (init_state (test_world0 [''DEFAULT''] 5 1))
     = (Inr False, \<lparr>stats = Map.empty, world = test_world0 [''DEFAULT''] 5 1,
          calls = [SystemVersion, Tunable, Tunable, ListAllSections, VolumeGetAll]\<rparr>)"
  by (simp add: check_connection_def check_limits_def bind_act_def invoke_def lift_def ret_def
      test_env_def test_common_def test_utils_def test_cinder_def init_state_def getitem_def
      test_world0_def ten_five_limit ten_five_min count_replicate check_capacity_def
      tunable_loop_setting)

text \<open>
  Claim C3, as amended. When admission passes and the volume name resolves to a non-empty
  backend name, the connection properties are built from that resolution. When it
  resolves to the empty backend name, and only then, the snapshot resolution is used
  instead: an exception it raises propagates, and otherwise the properties are built from
  its result, whatever backend name it carries. The driver raises no error of its own
  when the snapshot resolution is empty too.
\<close>

theorem initialize_connection_resolution:
  assumes "check_connection E s = (Inr True, s1)"
      and "generate_freenas_volume_name (ix_utils E) (vol_name v)
             (ixsystems_iqn_prefix (conf E)) = Inr fv"
      and "get_iscsi_portal (ix_utils E) (ixsystems_server_hostname (conf E))
             (ixsystems_server_iscsi_port (conf E)) = Inr portal"
  shows "(fn_name fv \<noteq> [] \<longrightarrow>
            initialize_connection E v c s = (Inr (connection portal fv v), s1))
       \<and> (fn_name fv = [] \<longrightarrow>
            initialize_connection E v c s =
              (case generate_freenas_snapshot_name (ix_utils E) (vol_name v)
                      (ixsystems_iqn_prefix (conf E)) of
                 Inl e \<Rightarrow> (Inl e, s1)
               | Inr fs \<Rightarrow> (Inr (connection portal fs v), s1)))"
  using assms(2,3)
  by (simp add: initialize_connection_allowed [OF assms(1)] split: sum.splits)

theorem initialize_connection_resolution_witness:
  "initialize_connection (test_env ''TrueNAS-12.0-U8'' True)
     (test_volume ''volume-1'' ''demo'' ''data'') []
     (init_state (test_world0 [''DEFAULT''] 0 1))
   = (Inr \<lparr>driver_volume_type = ''iscsi'',
           data = \<lparr>target_discovered = False, target_portal = ''nas:3260'',
                    target_iqn = ''iqn.2005-10.org.freenas.ctl:target-volume-1'',
                    volume_id = ''42''\<rparr>\<rparr>,
      \<lparr>stats = Map.empty, world = test_world0 [''DEFAULT''] 0 1,
       calls = [SystemVersion, Tunable, Tunable, ListAllSections, VolumeGetAll]\<rparr>)
   \<and> initialize_connection (test_env ''TrueNAS-12.0-U8'' True)
     (test_volume ''snap-1'' ''demo'' ''data'') []
     (init_state (test_world0 [''DEFAULT''] 0 1))
   = (Inr \<lparr>driver_volume_type = ''iscsi'',
           data = \<lparr>target_discovered = False, target_portal = ''nas:3260'',
                    target_iqn = ''iqn.2005-10.org.freenas.ctl:target-snap-1'',
                    volume_id = ''42''\<rparr>\<rparr>,
      \<lparr>stats = Map.empty, world = test_world0 [''DEFAULT''] 0 1,
       calls = [SystemVersion, Tunable, Tunable, ListAllSections, VolumeGetAll]\<rparr>)"
proof -
  let ?E = "test_env ''TrueNAS-12.0-U8'' True"
  have v: "generate_freenas_volume_name (ix_utils ?E) (vol_name (test_volume n ''demo'' ''data''))
             (ixsystems_iqn_prefix (conf ?E))
           = Inr \<lparr>fn_name = (if startswith n ''volume-'' then n else []),
                  fn_target = ''target-'' @ n,
                  fn_iqn = ''iqn.2005-10.org.freenas.ctl:target-'' @ n\<rparr>" for n
    by (simp add: test_env_def test_utils_def test_volume_def test_conf_def
        init_configuration_def)
  have p: "get_iscsi_portal (ix_utils ?E) (ixsystems_server_hostname (conf ?E))
             (ixsystems_server_iscsi_port (conf ?E)) = Inr ''nas:3260''"
    by (simp add: test_env_def test_utils_def test_conf_def init_configuration_def)
  show ?thesis
    using initialize_connection_resolution [OF test_admits v p, of "''volume-1''" "[]"]
          initialize_connection_resolution [OF test_admits v p, of "''snap-1''" "[]"]
    by (simp add: connection_def test_env_def test_utils_def test_volume_def test_conf_def
        init_configuration_def)
qed

text \<open>
  Claim C3 as stated does not hold: for a name that neither resolver knows (both return
  the empty backend name), \<^verbatim>\<open>initialize_connection\<close> returns connection properties; it
  does not fail.
\<close>

theorem initialize_connection_unresolved:
  "generate_freenas_volume_name test_utils ''backup-1'' ''iqn.2005-10.org.freenas.ctl:''
     = Inr \<lparr>fn_name = [], fn_target = ''target-backup-1'',
            fn_iqn = ''iqn.2005-10.org.freenas.ctl:target-backup-1''\<rparr>
   \<and> generate_freenas_snapshot_name test_utils ''backup-1'' ''iqn.2005-10.org.freenas.ctl:''
     = Inr \<lparr>fn_name = [], fn_target = ''target-backup-1'',
            fn_iqn = ''iqn.2005-10.org.freenas.ctl:target-backup-1''\<rparr>
   \<and> fst (initialize_connection (test_env ''TrueNAS-12.0-U8'' True)
          (test_volume ''backup-1'' ''demo'' ''data'') []
          (init_state (test_world0 [''DEFAULT''] 0 1)))
     = Inr \<lparr>driver_volume_type = ''iscsi'',
            data = \<lparr>target_discovered = False, target_portal = ''nas:3260'',
                     target_iqn = ''iqn.2005-10.org.freenas.ctl:target-backup-1'',
                     volume_id = ''42''\<rparr>\<rparr>"
  unfolding initialize_connection_allowed [OF test_admits]
  by (simp add: connection_def test_env_def test_utils_def test_volume_def test_conf_def
      init_configuration_def)

text \<open>
  Claim C6. When the admission check answers \<^verbatim>\<open>False\<close>, \<^verbatim>\<open>initialize_connection\<close>
  files one message through the message API, for the project of the volume and the id of
  the volume as resource, carrying the exception whose text names
  \<^verbatim>\<open>kern.cam.ctl.max_luns\<close> and \<^verbatim>\<open>kern.cam.ctl.max_ports\<close>; then it raises that
  exception (or the one the message API raised). It never returns connection properties.
\<close>

theorem denied_admission_notifies:
  assumes "check_connection E s = (Inr False, s1)"
      and "message_create (cinderapi E) (denial v) (world s1) = (r, w)"
  shows "initialize_connection E v c s =
           (Inl (case r of Inl e \<Rightarrow> e | Inr u \<Rightarrow> FreeNASApiError limit_reached_text),
            s1\<lparr>world := w, calls := calls s1 @ [MessageCreate (denial v)]\<rparr>)
         \<and> msg_project_id (denial v) = vol_project_id v
         \<and> msg_resource_uuid (denial v) = vol_id v
         \<and> msg_exception (denial v) = FreeNASApiError limit_reached_text
         \<and> find_str limit_reached_text ''kern.cam.ctl.max_luns'' \<ge> 0
         \<and> find_str limit_reached_text ''kern.cam.ctl.max_ports'' \<ge> 0"
proof -
  have "find_str limit_reached_text ''kern.cam.ctl.max_luns'' = 56"
    by (simp add: limit_reached_text_def find_str_def)
  moreover have "find_str limit_reached_text ''kern.cam.ctl.max_ports'' = 82"
    by (simp add: limit_reached_text_def find_str_def)
  ultimately show ?thesis
    using assms(2)
    by (simp add: initialize_connection_denied [OF assms(1)] denial_def split: sum.splits)
qed

theorem denied_admission_notifies_witness:
  "initialize_connection (test_env ''TrueNAS-12.0-U8'' True)
     (test_volume ''volume-1'' ''demo'' ''data'') []
     (init_state (test_world0 [''DEFAULT''] 5 1))
   = (Inl (FreeNASApiError limit_reached_text),
      \<lparr>stats = Map.empty,
       world = (test_world0 [''DEFAULT''] 5 1)
                 \<lparr>tw_messages := [denial (test_volume ''volume-1'' ''demo'' ''data'')]\<rparr>,
       calls = [SystemVersion, Tunable, Tunable, ListAllSections, VolumeGetAll,
                MessageCreate (denial (test_volume ''volume-1'' ''demo'' ''data''))]\<rparr>)"
  using denied_admission_notifies [OF test_denies,
      of "test_volume ''volume-1'' ''demo'' ''data''" "Inr ()"
         "(test_world0 [''DEFAULT''] 5 1)
            \<lparr>tw_messages := [denial (test_volume ''volume-1'' ''demo'' ''data'')]\<rparr>" "[]"]
  by (simp add: test_env_def test_cinder_def test_world0_def)

text \<open>
  Claim C10. Whenever \<^verbatim>\<open>initialize_connection\<close> returns, the value has the volume type
  \<^verbatim>\<open>iscsi\<close>, \<^verbatim>\<open>target_discovered\<close> false, the id of the input volume, the portal that
  \<^verbatim>\<open>get_iscsi_portal\<close> gives for the configured host name and iSCSI port, and the IQN of
  the resolved volume name, or of the snapshot name when the volume's backend name is
  empty.
\<close>

theorem connection_properties:
  assumes "initialize_connection E v c s = (Inr r, s')"
  shows "driver_volume_type r = ''iscsi''
       \<and> target_discovered (data r) = False
       \<and> volume_id (data r) = vol_id v
       \<and> get_iscsi_portal (ix_utils E) (ixsystems_server_hostname (conf E))
            (ixsystems_server_iscsi_port (conf E)) = Inr (target_portal (data r))
       \<and> (case generate_freenas_volume_name (ix_utils E) (vol_name v)
                 (ixsystems_iqn_prefix (conf E)) of
            Inl e \<Rightarrow> False
          | Inr fv \<Rightarrow>
              if fn_name fv \<noteq> [] then target_iqn (data r) = fn_iqn fv
              else (case generate_freenas_snapshot_name (ix_utils E) (vol_name v)
                           (ixsystems_iqn_prefix (conf E)) of
                      Inl e \<Rightarrow> False
                    | Inr fs \<Rightarrow> target_iqn (data r) = fn_iqn fs))"
proof -
  obtain ok s1 where cc: "check_connection E s = (ok, s1)" by (cases "check_connection E s")
  show ?thesis
  proof (cases ok)
    case (Inl e)
    with cc assms show ?thesis by (simp add: initialize_connection_def bind_act_def)
  next
    case (Inr b)
    show ?thesis
    proof (cases b)
      case True
      with cc Inr have "check_connection E s = (Inr True, s1)" by simp
      from initialize_connection_allowed [OF this, of v c] assms show ?thesis
        by (auto simp add: connection_def split: sum.splits if_splits)
    next
      case False
      with cc Inr have "check_connection E s = (Inr False, s1)" by simp
      from initialize_connection_denied [OF this, of v c] assms show ?thesis
        by (simp split: sum.splits prod.splits)
    qed
  qed
qed

theorem connection_properties_witness:
  "initialize_connection (test_env ''TrueNAS-12.0-U8'' True)
     (test_volume ''volume-1'' ''demo'' ''data'') []
     (init_state (test_world0 [''DEFAULT''] 0 1))
   = (Inr \<lparr>driver_volume_type = ''iscsi'',
           data = \<lparr>target_discovered = False, target_portal = ''nas:3260'',
                    target_iqn = ''iqn.2005-10.org.freenas.ctl:target-volume-1'',
                    volume_id = ''42''\<rparr>\<rparr>,
      \<lparr>stats = Map.empty, world = test_world0 [''DEFAULT''] 0 1,
       calls = [SystemVersion, Tunable, Tunable, ListAllSections, VolumeGetAll]\<rparr>)
   \<and> get_iscsi_portal test_utils ''nas'' ''3260'' = Inr ''nas:3260''
   \<and> generate_freenas_volume_name test_utils ''volume-1'' ''iqn.2005-10.org.freenas.ctl:''
       = Inr \<lparr>fn_name = ''volume-1'', fn_target = ''target-volume-1'',
              fn_iqn = ''iqn.2005-10.org.freenas.ctl:target-volume-1''\<rparr>"
proof -
  let ?E = "test_env ''TrueNAS-12.0-U8'' True"
  let ?v = "test_volume ''volume-1'' ''demo'' ''data''"
  let ?s = "init_state (test_world0 [''DEFAULT''] 0 1)"
  let ?f = "\<lparr>fn_name = ''volume-1'', fn_target = ''target-volume-1'',
        fn_iqn = ''iqn.2005-10.org.freenas.ctl:target-volume-1''\<rparr>"
  have run: "initialize_connection ?E ?v [] ?s
          = (Inr (connection ''nas:3260'' ?f ?v),
             \<lparr>stats = Map.empty, world = test_world0 [''DEFAULT''] 0 1,
              calls = [SystemVersion, Tunable, Tunable, ListAllSections, VolumeGetAll]\<rparr>)"
    unfolding initialize_connection_allowed [OF test_admits]
    by (simp add: test_env_def test_utils_def test_volume_def test_conf_def
        init_configuration_def)
  from connection_properties [OF run] run show ?thesis
    by (simp add: connection_def test_env_def test_utils_def test_conf_def
        init_configuration_def test_volume_def)
qed

subsection \<open>Creating, cloning and extending volumes\<close>

text \<open>
  Claim C4. \<^verbatim>\<open>create_volume\<close> first provisions the storage object of the requested
  size, then creates the target bound to it. Whatever the target creation returns or
  raises is the outcome of the call, and the call ends there: when it raises after the
  storage object was created, the world is the one the two calls left, and no deletion
  follows.
\<close>

theorem create_volume_no_rollback:
  assumes "generate_freenas_volume_name (ix_utils E) (vol_name v)
             (ixsystems_iqn_prefix (conf E)) = Inr fv"
      and "common_create_volume (common E) (fn_name fv) (vol_size v) (world s) = (Inr (), w1)"
      and "common_create_iscsitarget (common E) (fn_target fv) (fn_name fv) w1 = (r, w2)"
  shows "create_volume E v s =
           (r, s\<lparr>world := w2,
                 calls := calls s @ [CreateVolume (fn_name fv) (vol_size v),
                                     CreateIscsiTarget (fn_target fv) (fn_name fv)]\<rparr>)"
  using assms
  by (simp add: create_volume_def bind_lift_Inr bind_invoke_Inr invoke_run Let_def)

theorem create_volume_no_rollback_witness:
  "create_volume (test_env ''TrueNAS-12.0-U8'' True) (test_volume ''volume-1'' ''demo'' ''data'')
     (init_state (test_world0 [] 0 0))
   = (Inl (Raised ''target quota''),
      \<lparr>stats = Map.empty,
       world = (test_world0 [] 0 0)\<lparr>tw_objects := [''volume-1'']\<rparr>,
       calls = [CreateVolume ''volume-1'' 10, CreateIscsiTarget ''target-volume-1'' ''volume-1'']\<rparr>)
   \<and> tw_objects (test_world0 [] 0 0) = [] \<and> tw_targets (test_world0 [] 0 0) = []"
  using create_volume_no_rollback [of "test_env ''TrueNAS-12.0-U8'' True"
      "test_volume ''volume-1'' ''demo'' ''data''"
      "\<lparr>fn_name = ''volume-1'', fn_target = ''target-volume-1'',
        fn_iqn = ''iqn.2005-10.org.freenas.ctl:target-volume-1''\<rparr>"
      "init_state (test_world0 [] 0 0)"
      "(test_world0 [] 0 0)\<lparr>tw_objects := [''volume-1'']\<rparr>"
      "Inl (Raised ''target quota'')"
      "(test_world0 [] 0 0)\<lparr>tw_objects := [''volume-1'']\<rparr>"]
  by (simp add: test_env_def test_common_def test_utils_def test_conf_def
      init_configuration_def init_state_def test_world0_def test_volume_def)

lemma create_snapshot_emits: "emits (\<lambda>c. \<not> is_delete c) (create_snapshot E x)"
  unfolding create_snapshot_def by (intro emits_rules) simp

lemma cvfs_emits: "emits (\<lambda>c. \<not> is_delete c) (create_volume_from_snapshot E v x)"
  unfolding create_volume_from_snapshot_def by (intro emits_rules) simp_all

lemma create_snapshot_run:
  assumes "generate_freenas_snapshot_name (ix_utils E) (snap_name x)
             (ixsystems_iqn_prefix (conf E)) = Inr fs"
      and "generate_freenas_volume_name (ix_utils E) (snap_volume_name x)
             (ixsystems_iqn_prefix (conf E)) = Inr fv"
      and "common_create_snapshot (common E) (fn_name fs) (fn_name fv) (world s) = (r, w)"
  shows "create_snapshot E x s =
           (r, s\<lparr>world := w, calls := calls s @ [CreateSnapshot (fn_name fs) (fn_name fv)]\<rparr>)"
  using assms
  by (simp add: create_snapshot_def bind_lift_Inr invoke_run)

text \<open>
  Claim C5. \<^verbatim>\<open>create_cloned_volume\<close> is the composition the specification describes: one
  snapshot of the source volume, named \<^verbatim>\<open>name-\<close> followed by the id of the new volume,
  then \<^verbatim>\<open>create_volume_from_snapshot\<close> from that snapshot. No deletion, of the snapshot
  or of anything else, is among the calls it makes.
\<close>

theorem clone_is_snapshot_then_volume:
  assumes "generate_freenas_snapshot_name (ix_utils E) (''name-'' @ vol_id v)
             (ixsystems_iqn_prefix (conf E)) = Inr fs"
      and "generate_freenas_volume_name (ix_utils E) (vol_name src)
             (ixsystems_iqn_prefix (conf E)) = Inr fsrc"
      and "common_create_snapshot (common E) (fn_name fs) (fn_name fsrc) (world s) = (Inr (), w)"
  shows "create_cloned_volume E v src = clone_by_snapshot E v src
       \<and> create_cloned_volume E v src s =
           create_volume_from_snapshot E v (transient_snapshot v src)
             (s\<lparr>world := w, calls := calls s @ [CreateSnapshot (fn_name fs) (fn_name fsrc)]\<rparr>)
       \<and> list_all (\<lambda>c. \<not> is_delete c) (new_calls s (snd (create_cloned_volume E v src s)))"
proof -
  have eq: "create_cloned_volume E v src = clone_by_snapshot E v src"
    by (simp add: create_cloned_volume_def clone_by_snapshot_def transient_snapshot_def Let_def)
  have snap: "create_snapshot E (transient_snapshot v src) s =
      (Inr (), s\<lparr>world := w, calls := calls s @ [CreateSnapshot (fn_name fs) (fn_name fsrc)]\<rparr>)"
    using assms by (intro create_snapshot_run) (simp_all add: transient_snapshot_def)
  have run: "create_cloned_volume E v src s =
           create_volume_from_snapshot E v (transient_snapshot v src)
             (s\<lparr>world := w, calls := calls s @ [CreateSnapshot (fn_name fs) (fn_name fsrc)]\<rparr>)"
    by (simp add: eq clone_by_snapshot_def bind_act_def snap)
  have "emits (\<lambda>c. \<not> is_delete c) (clone_by_snapshot E v src)"
    unfolding clone_by_snapshot_def
    by (intro emits_bind create_snapshot_emits cvfs_emits)
  then have "list_all (\<lambda>c. \<not> is_delete c) (new_calls s (snd (create_cloned_volume E v src s)))"
    unfolding eq by (rule emits_new_calls)
  with eq run show ?thesis by simp
qed

theorem clone_is_snapshot_then_volume_witness:
  "create_cloned_volume (test_env ''TrueNAS-12.0-U8'' True)
     (test_volume ''volume-new'' ''demo'' ''data'') (test_volume ''volume-old'' ''demo'' ''src'')
     (init_state (test_world0 [] 0 9))
   = (Inr (),
      \<lparr>stats = Map.empty,
       world = (test_world0 [] 0 9)\<lparr>tw_objects := [''volume-new'', ''name-42''],
                                    tw_targets := [''target-volume-new'']\<rparr>,
       calls = [CreateSnapshot ''name-42'' ''volume-old'',
                CreateVolumeFromSnapshot ''volume-new'' ''name-42'' ''volume-old'',
                CreateIscsiTarget ''target-volume-new'' ''volume-new'',
                IsServiceProject ''demo'']\<rparr>)"
proof -
  let ?E = "test_env ''TrueNAS-12.0-U8'' True"
  let ?v = "test_volume ''volume-new'' ''demo'' ''data''"
  let ?src = "test_volume ''volume-old'' ''demo'' ''src''"
  let ?p = "ixsystems_iqn_prefix (conf ?E)"
  let ?s = "init_state (test_world0 [] 0 9)"
  let ?fs = "\<lparr>fn_name = ''name-42'', fn_target = ''target-name-42'',
               fn_iqn = ?p @ ''target-name-42''\<rparr>"
  let ?fsrc = "\<lparr>fn_name = ''volume-old'', fn_target = ''target-volume-old'',
               fn_iqn = ?p @ ''target-volume-old''\<rparr>"
  have 1: "generate_freenas_snapshot_name (ix_utils ?E) (''name-'' @ vol_id ?v) ?p = Inr ?fs"
    by (simp add: test_env_def test_utils_def test_volume_def)
  have 2: "generate_freenas_volume_name (ix_utils ?E) (vol_name ?src) ?p = Inr ?fsrc"
    by (simp add: test_env_def test_utils_def test_volume_def)
  have 3: "common_create_snapshot (common ?E) (fn_name ?fs) (fn_name ?fsrc) (world ?s)
        = (Inr (), (test_world0 [] 0 9)\<lparr>tw_objects := [''name-42'']\<rparr>)"
    by (simp add: test_env_def test_common_def init_state_def test_world0_def)
  have run: "create_cloned_volume ?E ?v ?src ?s =
      create_volume_from_snapshot ?E ?v (transient_snapshot ?v ?src)
        (?s\<lparr>world := (test_world0 [] 0 9)\<lparr>tw_objects := [''name-42'']\<rparr>,
            calls := calls ?s @ [CreateSnapshot (fn_name ?fs) (fn_name ?fsrc)]\<rparr>)"
    using clone_is_snapshot_then_volume [OF 1 2 3] by (rule conjunct2 [THEN conjunct1])
  show ?thesis
    unfolding run
    by (simp add: create_volume_from_snapshot_def transient_snapshot_def bind_act_def
        invoke_def lift_def ret_def test_env_def test_common_def test_utils_def test_conf_def
        init_configuration_def init_state_def test_world0_def test_volume_def)
qed

text \<open>
  Claim C8. \<^verbatim>\<open>extend_volume\<close> runs the appliance's grow operation on the resolved name
  with the new size exactly when the new size differs from the volume's size: the outcome
  and the world of that operation are those of the call, and it is the only call made.
  With equal sizes it returns with the state unchanged.
\<close>

theorem extend_volume_grows_on_change:
  assumes "generate_freenas_volume_name (ix_utils E) (vol_name v)
             (ixsystems_iqn_prefix (conf E)) = Inr fv"
  shows "(new_size \<noteq> vol_size v \<and>
          common_extend_volume (common E) (fn_name fv) new_size (world s) = (r, w) \<longrightarrow>
            extend_volume E v new_size s =
              (r, s\<lparr>world := w, calls := calls s @ [ExtendVolume (fn_name fv) new_size]\<rparr>))
       \<and> new_calls s (snd (extend_volume E v new_size s)) =
           (if new_size \<noteq> vol_size v then [ExtendVolume (fn_name fv) new_size] else [])
       \<and> (if new_size = vol_size v then extend_volume E v new_size s = (Inr (), s) else True)"
  using assms
  by (auto simp add: extend_volume_def bind_lift_Inr Let_def new_calls_def invoke_def ret_def
      split: prod.splits)

theorem extend_volume_grows_on_change_witness:
  "extend_volume (test_env ''TrueNAS-12.0-U8'' True)
     (test_volume ''volume-1'' ''demo'' ''data'') 20 (init_state (test_world0 [] 0 9))
   = (Inr (),
      \<lparr>stats = Map.empty,
       world = (test_world0 [] 0 9)\<lparr>tw_grown := [(''volume-1'', 20)]\<rparr>,
       calls = [ExtendVolume ''volume-1'' 20]\<rparr>)
   \<and> extend_volume (test_env ''TrueNAS-12.0-U8'' True)
     (test_volume ''volume-1'' ''demo'' ''data'') 0 (init_state (test_world0 [] 0 9))
   = (Inl (Raised ''size refused''),
      \<lparr>stats = Map.empty, world = test_world0 [] 0 9,
       calls = [ExtendVolume ''volume-1'' 0]\<rparr>)
   \<and> extend_volume (test_env ''TrueNAS-12.0-U8'' True)
        (test_volume ''volume-1'' ''demo'' ''data'') 10 (init_state (test_world0 [] 0 9))
      = (Inr (), init_state (test_world0 [] 0 9))"
proof -
  let ?E = "test_env ''TrueNAS-12.0-U8'' True"
  let ?v = "test_volume ''volume-1'' ''demo'' ''data''"
  let ?s = "init_state (test_world0 [] 0 9)"
  have n: "generate_freenas_volume_name (ix_utils ?E) (vol_name ?v)
             (ixsystems_iqn_prefix (conf ?E))
           = Inr \<lparr>fn_name = ''volume-1'', fn_target = ''target-volume-1'',
                  fn_iqn = ''iqn.2005-10.org.freenas.ctl:target-volume-1''\<rparr>"
    by (simp add: test_env_def test_utils_def test_volume_def test_conf_def
        init_configuration_def)
  from extend_volume_grows_on_change [OF n, of 20 ?s "Inr ()"
         "(test_world0 [] 0 9)\<lparr>tw_grown := [(''volume-1'', 20)]\<rparr>"]
       extend_volume_grows_on_change [OF n, of 0 ?s "Inl (Raised ''size refused'')"
         "test_world0 [] 0 9"]
       extend_volume_grows_on_change [OF n, of 10 ?s]
  show ?thesis
    by (simp add: test_env_def test_common_def test_volume_def init_state_def
        test_world0_def)
qed

subsection \<open>Statistics\<close>

text \<open>
  Claim C9. Without refresh, \<^verbatim>\<open>get_volume_stats\<close> returns the cache and changes
  nothing; on a fresh driver the cache is empty. With refresh, the cache becomes the
  snapshot the appliance reports, whatever it held before, and that snapshot is returned;
  when the appliance raises instead, the cache is left as it was.
\<close>

theorem stats_cache:
  "get_volume_stats E False s = (Inr (stats s), s)
   \<and> get_volume_stats E False (init_state w0) = (Inr Map.empty, init_state w0)
   \<and> (common_update_volume_stats (common E) (world s) = (Inr fresh, w) \<longrightarrow>
        get_volume_stats E True s =
          (Inr fresh, s\<lparr>stats := fresh, world := w, calls := calls s @ [UpdateVolumeStats]\<rparr>))
   \<and> (common_update_volume_stats (common E) (world s) = (Inl e, w) \<longrightarrow>
        get_volume_stats E True s =
          (Inl e, s\<lparr>world := w, calls := calls s @ [UpdateVolumeStats]\<rparr>))"
  by (simp add: get_volume_stats_def bind_act_def invoke_def ret_def init_state_def)

theorem stats_cache_witness:
  "get_volume_stats (test_env ''TrueNAS-12.0-U8'' True) True
     \<lparr>stats = [''free_capacity_gb'' \<mapsto> PyInt 7], world = test_world0 [] 0 9, calls = []\<rparr>
   = (Inr [''volume_count'' \<mapsto> PyInt 0],
      \<lparr>stats = [''volume_count'' \<mapsto> PyInt 0], world = test_world0 [] 0 9,
       calls = [UpdateVolumeStats]\<rparr>)
   \<and> get_volume_stats (test_env ''TrueNAS-12.0-U8'' True) False
     \<lparr>stats = [''free_capacity_gb'' \<mapsto> PyInt 7], world = test_world0 [] 0 9, calls = []\<rparr>
   = (Inr [''free_capacity_gb'' \<mapsto> PyInt 7],
      \<lparr>stats = [''free_capacity_gb'' \<mapsto> PyInt 7], world = test_world0 [] 0 9, calls = []\<rparr>)"
  using stats_cache [of "test_env ''TrueNAS-12.0-U8'' True"
      "\<lparr>stats = [''free_capacity_gb'' \<mapsto> PyInt 7], world = test_world0 [] 0 9, calls = []\<rparr>"
      "test_world0 [] 0 9" "[''volume_count'' \<mapsto> PyInt 0]" "test_world0 [] 0 9"]
  by (simp add: test_env_def test_common_def test_world0_def)

end
